theory Spec2Isabelle
  imports Complex_Main "HOL-Library.Char_ord" "HOL-Library.List_Lexorder"
    "HOL-Library.Product_Lexorder" "HOL-Library.Log_Nat"
begin

section \<open>Transaction management core of the relay server\<close>

text \<open>
  A shallow embedding of the class \<open>TransactionManager\<close>. An asynchronous method
  becomes a function from the state it reads to the state it leaves and a result; a
  thrown \<open>Error\<close> becomes \<open>Inl\<close> of an error kind. Log output is left out, and so is
  the mutex: one operation runs at a time.
\<close>

subsection \<open>Numbers\<close>

text \<open>
  A JavaScript number is a binary64 value. The numbers that hold nonces, block
  heights, gas limits, attempt counts and stored gas prices are integers, and they
  are \<open>int\<close> here: every integer of magnitude up to \<open>2 ^ 53\<close> is a number. A number
  that can have a fraction is a \<open>rat\<close>, the value of the double. The product of two
  numbers is the double nearest to the exact product, ties going to the even
  mantissa; \<open>toNumber\<close> is that rounding, with 53 bits of mantissa. The exponent is
  not bounded here: a product beyond the largest double, and one below the smallest
  normal double, is rounded like any other.
\<close>

text \<open>The binary exponent of a positive value: \<open>2 powi exponent x \<le> x < 2 powi (exponent x + 1)\<close>.\<close>

definition exponent :: "rat \<Rightarrow> int" where
  "exponent x =
     (if 1 \<le> x then int (floorlog 2 (nat \<lfloor>x\<rfloor>)) - 1
      else - int (floorlog 2 (nat (\<lceil>1 / x\<rceil> - 1))))"

definition roundHalfEven :: "rat \<Rightarrow> int" where
  "roundHalfEven y =
     (let n = \<lfloor>y\<rfloor>; r = y - of_int n
      in if r < 1 / 2 then n else if 1 / 2 < r then n + 1 else if even n then n else n + 1)"

definition nearestPositive :: "rat \<Rightarrow> rat" where
  "nearestPositive x =
     (let ulp = 2 powi (exponent x - 52) in of_int (roundHalfEven (x / ulp)) * ulp)"

definition toNumber :: "rat \<Rightarrow> rat" where
  "toNumber x =
     (if x = 0 then 0 else if 0 < x then nearestPositive x else - nearestPositive (- x))"

text \<open>\<open>Math.round\<close>: the nearest integer, a half going upwards.\<close>

definition mathRound :: "rat \<Rightarrow> int" where
  "mathRound x = \<lfloor>x + 1 / 2\<rfloor>"

subsection \<open>Data\<close>

type_synonym address = string
type_synonym hex = string

text \<open>
  \<open>ServerAction\<close> is a numeric enum declared beside \<open>StoredTransaction\<close>; the manager
  only carries the tag from the request to the stored row.
\<close>

type_synonym server_action = nat

datatype error = UnknownSigner | DuplicateNonce | HashMismatch | ChainRpcError | StoreIoError

text \<open>
  The fields of \<open>ServerConfigParams\<close> that the manager reads. The two factors are
  kept as the decimal values that were configured; the numbers that the code
  multiplies with are the doubles nearest to them. \<open>maxGasPrice\<close> is the configured
  decimal string after \<open>parseInt\<close>.
\<close>

record config =
  retryGasPriceFactorConfigured :: rat
  maxGasPrice :: int
  estimateGasFactorConfigured :: rat
  defaultGasLimit :: int
  confirmationsNeeded :: int
  pendingTransactionTimeoutBlocks :: int

definition retryGasPriceFactor :: "config \<Rightarrow> rat" where
  "retryGasPriceFactor cfg = toNumber (retryGasPriceFactorConfigured cfg)"

definition estimateGasFactor :: "config \<Rightarrow> rat" where
  "estimateGasFactor cfg = toNumber (estimateGasFactorConfigured cfg)"

subsection \<open>Repricing\<close>

text \<open>
  \<open>_resolveNewGasPrice\<close> returns the pair \<open>(newGasPrice, isMaxGasPriceReached)\<close>. Its
  argument is the gas price of a stored row, an integer; the product with the factor
  is a double and is not rounded to an integer.
\<close>

definition resolveNewGasPrice :: "config \<Rightarrow> int \<Rightarrow> rat \<times> bool" where
  "resolveNewGasPrice cfg oldGasPrice =
     (let newGasPrice = toNumber (of_int oldGasPrice * retryGasPriceFactor cfg)
      in if newGasPrice > of_int (maxGasPrice cfg)
         then (of_int (maxGasPrice cfg), True)
         else (newGasPrice, False))"

subsection \<open>Transactions and stored rows\<close>

text \<open>
  What \<open>new Transaction({...}, rawTxOptions)\<close> holds. Each numeric field is kept as
  the bytes of an integer, so \<open>tx_gasPrice\<close>, like the other numeric fields, is an
  \<open>int\<close>. \<open>tx_value\<close> is \<open>None\<close> when the caller passes no \<open>value\<close> property; the
  transaction then carries the library's default, zero. \<open>tx_data\<close> holds the call data
  as hex digits without the \<open>0x\<close> prefix.
\<close>

record transaction =
  tx_to :: address
  tx_value :: "hex option"
  tx_gasLimit :: int
  tx_gasPrice :: int
  tx_data :: hex
  tx_nonce :: int

text \<open>
  \<open>StoredTransaction\<close>, with the fields the manager reads and writes. The source's
  \<open>from\<close> and \<open>to\<close> are \<open>from_addr\<close> and \<open>to_addr\<close> here.
\<close>

record stored_transaction =
  txId :: hex
  from_addr :: address
  to_addr :: address
  gas :: int
  gasPrice :: int
  stored_value :: "hex option"
  data :: hex
  nonce :: int
  attempts :: int
  serverAction :: server_action
  creationBlockNumber :: int
  boostBlockNumber :: "int option"
  minedBlockNumber :: "int option"

record stored_transaction_metadata =
  md_from :: address
  md_attempts :: int
  md_serverAction :: server_action
  md_creationBlockNumber :: int
  md_boostBlockNumber :: "int option"
  md_minedBlockNumber :: "int option"

text \<open>
  Modelled from the spec: \<open>createStoredTransaction\<close> is declared in
  \<open>StoredTransaction.ts\<close>, which is not among the sources. The row takes \<open>to\<close>,
  \<open>gas_limit\<close>, \<open>gas_price\<close>, \<open>value\<close>, \<open>data\<close> and \<open>nonce\<close> from the transaction,
  the remaining fields from the metadata, and its \<open>tx_id\<close> is the hash of the signed
  transaction. The source signs the transaction object in place before it builds the
  row; here the signed bytes are an argument, and the hash function is the first one.
\<close>

definition createStoredTransaction ::
  "(hex \<Rightarrow> hex) \<Rightarrow> transaction \<Rightarrow> hex \<Rightarrow> stored_transaction_metadata \<Rightarrow> stored_transaction" where
  "createStoredTransaction txHash tx signedTx metadata =
     \<lparr> txId = txHash signedTx,
       from_addr = md_from metadata,
       to_addr = tx_to tx,
       gas = tx_gasLimit tx,
       gasPrice = tx_gasPrice tx,
       stored_value = tx_value tx,
       data = tx_data tx,
       nonce = tx_nonce tx,
       attempts = md_attempts metadata,
       serverAction = md_serverAction metadata,
       creationBlockNumber = md_creationBlockNumber metadata,
       boostBlockNumber = md_boostBlockNumber metadata,
       minedBlockNumber = md_minedBlockNumber metadata \<rparr>"

subsection \<open>The transaction store\<close>

type_synonym tx_store = "stored_transaction list"

definition sameKey :: "stored_transaction \<Rightarrow> stored_transaction \<Rightarrow> bool" where
  "sameKey a b = (from_addr a = from_addr b \<and> nonce a = nonce b)"

text \<open>
  Modelled from the spec: \<open>TxStoreManager.putTx\<close> is not among the sources. \<open>put\<close>
  inserts a row; with \<open>replace_existing\<close> false it fails with \<open>DuplicateNonce\<close> when a
  row with the same \<open>(from, nonce)\<close> exists, with \<open>replace_existing\<close> true it overwrites
  that row.
\<close>

definition putTx :: "stored_transaction \<Rightarrow> bool \<Rightarrow> tx_store \<Rightarrow> error + tx_store" where
  "putTx tx replaceExisting s =
     (if list_ex (\<lambda>r. sameKey r tx) s
      then (if replaceExisting
            then Inr (tx # filter (\<lambda>r. \<not> sameKey r tx) s)
            else Inl DuplicateNonce)
      else Inr (tx # s))"

text \<open>
  Modelled from the spec: \<open>TxStoreManager.getAll\<close> is not among the sources. \<open>get_all\<close>
  returns all rows ascending by \<open>(from, nonce)\<close>.
\<close>

definition getAll :: "tx_store \<Rightarrow> stored_transaction list" where
  "getAll s = sort_key (\<lambda>r. (from_addr r, nonce r)) s"

text \<open>
  Modelled from the spec: \<open>TxStoreManager.getAllBySigner\<close> is not among the sources.
  \<open>get_all_by_signer\<close> returns the rows of one signer ascending by nonce.
\<close>

definition getAllBySigner :: "address \<Rightarrow> tx_store \<Rightarrow> stored_transaction list" where
  "getAllBySigner signer s = sort_key nonce (filter (\<lambda>r. from_addr r = signer) s)"

text \<open>
  Modelled from the spec: \<open>TxStoreManager.removeTxsUntilNonce\<close> is not among the
  sources. \<open>remove_txs_until_nonce\<close> deletes every row of the signer with a nonce up to
  and including the given one.
\<close>

definition removeTxsUntilNonce :: "address \<Rightarrow> int \<Rightarrow> tx_store \<Rightarrow> tx_store" where
  "removeTxsUntilNonce signer n s =
     filter (\<lambda>r. \<not> (from_addr r = signer \<and> nonce r \<le> n)) s"

subsection \<open>Collaborators\<close>

text \<open>
  The interface of a \<open>KeyManager\<close>: \<open>address(i)\<close>, \<open>is_signer(addr)\<close>, and the signature
  computation \<open>signWith\<close>, which yields the signed raw transaction.
\<close>

record key_manager =
  getAddress :: "nat \<Rightarrow> address"
  isSigner :: "address \<Rightarrow> bool"
  signWith :: "address \<Rightarrow> transaction \<Rightarrow> hex"

text \<open>
  Modelled from the spec: \<open>KeyManager.signTransaction\<close> is not among the sources. The
  spec gives \<open>sign_transaction(addr, tx)\<close> the signed bytes as its result and no
  failure. The result type leaves room for an error, because an exception thrown
  there would leave the caller's \<open>try\<close> block.
\<close>

definition signTransaction :: "key_manager \<Rightarrow> address \<Rightarrow> transaction \<Rightarrow> error + hex" where
  "signTransaction km signer tx =
     Inr (signWith km signer tx)"

text \<open>
  The \<open>ContractInteractor\<close> of the common package, as an oracle that is fixed for the
  length of one operation. \<open>None\<close> is a call that throws. \<open>getTransaction\<close> answers
  \<open>Some None\<close> for JavaScript's \<open>null\<close>. A call of \<open>getTransactionCount\<close> without a block
  tag asks for the latest count.
\<close>

datatype block_tag = Latest | Pending

record receipt =
  rc_blockNumber :: "int option"
  rc_from :: address
  rc_nonce :: int

record contract_interactor =
  getGasPrice :: "int option"
  getTransactionCount :: "address \<Rightarrow> block_tag \<Rightarrow> int option"
  broadcastTransaction :: "hex \<Rightarrow> hex option"
  getTransaction :: "hex \<Rightarrow> receipt option option"

text \<open>
  The immutable fields of a \<open>TransactionManager\<close>, and what the code below it does
  where the sources do not say: \<open>txHash\<close> is the hash that the transaction library
  computes over a signed transaction, \<open>nonNumericNonce\<close> is the nonce that library
  holds when it is handed \<open>undefined\<close> or \<open>NaN\<close>, \<open>irregularNumber\<close> is the integer it
  holds when it is handed a number that is negative or has a fraction, and
  \<open>parseIntExponential\<close> is the integer that \<open>parseInt\<close> reads from a number of
  magnitude \<open>10 ^ 21\<close> or more, which is printed in exponent notation.
\<close>

record transaction_manager =
  managerKeyManager :: key_manager
  workersKeyManager :: key_manager
  contractInteractor :: contract_interactor
  tm_config :: config
  txHash :: "hex \<Rightarrow> hex"
  nonNumericNonce :: int
  irregularNumber :: "rat \<Rightarrow> int"
  parseIntExponential :: "int \<Rightarrow> int"

text \<open>
  The integer that a numeric field of a \<open>Transaction\<close> holds for a number: a
  non-negative integer is held as it is.
\<close>

definition numberField :: "transaction_manager \<Rightarrow> rat \<Rightarrow> int" where
  "numberField tm x =
     (if 0 \<le> x \<and> of_int \<lfloor>x\<rfloor> = x then \<lfloor>x\<rfloor> else irregularNumber tm x)"

subsection \<open>Gas estimation\<close>

text \<open>
  \<open>parseInt\<close> applied to an integer-valued number: a number of magnitude below
  \<open>10 ^ 21\<close> is printed with all its digits, which \<open>parseInt\<close> reads back.
\<close>

definition parseInt :: "transaction_manager \<Rightarrow> int \<Rightarrow> int" where
  "parseInt tm n = (if \<bar>n\<bar> < 10 ^ 21 then n else parseIntExponential tm n)"

text \<open>
  \<open>attemptEstimateGas\<close>: the argument is the outcome of \<open>method.estimateGas({from})\<close>,
  \<open>None\<close> when the call throws. The product is a product of numbers. The \<open>catch\<close>
  block only logs, and control falls through to the final \<open>return\<close>.
\<close>

definition attemptEstimateGas :: "transaction_manager \<Rightarrow> int option \<Rightarrow> error + int" where
  "attemptEstimateGas tm estimateGas =
     (case estimateGas of
        Some g \<Rightarrow>
          Inr (mathRound (toNumber (of_int (parseInt tm g) * estimateGasFactor (tm_config tm))))
      | None \<Rightarrow> Inr (defaultGasLimit (tm_config tm)))"

subsection \<open>Nonce counters\<close>

text \<open>
  \<open>nonces: Record<string, number>\<close>. A key the object does not have reads as
  \<open>undefined\<close>, which is \<open>None\<close> here; \<open>undefined++\<close> stores \<open>NaN\<close>, and every comparison
  with \<open>undefined\<close> or \<open>NaN\<close> is false.
\<close>

datatype jsnum = Num int | NaN

type_synonym nonce_counters = "address \<rightharpoonup> jsnum"

definition initNonces :: "key_manager \<Rightarrow> key_manager \<Rightarrow> nonce_counters" where
  "initNonces manager workers =
     (Map.empty(getAddress manager 0 \<mapsto> Num 0))(getAddress workers 0 \<mapsto> Num 0)"

fun greaterThan :: "int \<Rightarrow> jsnum option \<Rightarrow> bool" where
  "greaterThan n (Some (Num c)) = (n > c)"
| "greaterThan n (Some NaN) = False"
| "greaterThan n None = False"

fun increment :: "jsnum option \<Rightarrow> jsnum" where
  "increment (Some (Num c)) = Num (c + 1)"
| "increment (Some NaN) = NaN"
| "increment None = NaN"

definition pollNonce ::
  "contract_interactor \<Rightarrow> nonce_counters \<Rightarrow> address \<Rightarrow> error + (nonce_counters \<times> jsnum option)" where
  "pollNonce chain nonces signer =
     (case getTransactionCount chain signer Pending of
        None \<Rightarrow> Inl ChainRpcError
      | Some n \<Rightarrow>
          (let nonces' = (if greaterThan n (nonces signer) then nonces(signer \<mapsto> Num n) else nonces)
           in Inr (nonces', nonces' signer)))"

subsection \<open>Sending\<close>

record send_transaction_details =
  signer :: address
  rq_serverAction :: server_action
  encodedCall :: "hex option"
  destination :: address
  rq_value :: "hex option"
  gasLimit :: int
  rq_gasPrice :: "int option"
  rq_creationBlockNumber :: int

record signed_transaction_details =
  transactionHash :: hex
  signedTx :: hex

record manager_state =
  nonces :: nonce_counters
  txStore :: tx_store

text \<open>\<open>String.prototype.toLowerCase\<close> on the ASCII letters that a hex string can hold.\<close>

definition toLowerChar :: "char \<Rightarrow> char" where
  "toLowerChar c =
     (case map_of (zip ''ABCDEFGHIJKLMNOPQRSTUVWXYZ'' ''abcdefghijklmnopqrstuvwxyz'') c of
        Some l \<Rightarrow> l
      | None \<Rightarrow> c)"

definition toLowerCase :: "string \<Rightarrow> string" where
  "toLowerCase s = map toLowerChar s"

definition selectKeyManager :: "transaction_manager \<Rightarrow> address \<Rightarrow> key_manager" where
  "selectKeyManager tm a =
     (if isSigner (managerKeyManager tm) a then managerKeyManager tm else workersKeyManager tm)"

definition nonceArgument :: "transaction_manager \<Rightarrow> jsnum option \<Rightarrow> int" where
  "nonceArgument tm v = (case v of Some (Num n) \<Rightarrow> n | _ \<Rightarrow> nonNumericNonce tm)"

text \<open>
  \<open>parseInt(gasPrice ?? (await this.contractInteractor.getGasPrice()))\<close>: the chain is
  asked only when the request carries no gas price.
\<close>

definition resolveGasPrice :: "transaction_manager \<Rightarrow> send_transaction_details \<Rightarrow> int option" where
  "resolveGasPrice tm rq =
     (case rq_gasPrice rq of Some g \<Rightarrow> Some g | None \<Rightarrow> getGasPrice (contractInteractor tm))"

text \<open>
  The transaction that \<open>sendTransaction\<close> builds. \<open>method?.encodeABI() ?? '0x'\<close> is
  \<open>encodedCall\<close> with its default, and the parameter default \<open>value = '0x'\<close> is applied
  to \<open>rq_value\<close>.
\<close>

definition sendTxToSign ::
  "transaction_manager \<Rightarrow> send_transaction_details \<Rightarrow> int \<Rightarrow> jsnum option \<Rightarrow> transaction" where
  "sendTxToSign tm rq gasPrice' nonce' =
     \<lparr> tx_to = destination rq,
       tx_value = Some (case rq_value rq of Some v \<Rightarrow> v | None \<Rightarrow> ''0x''),
       tx_gasLimit = gasLimit rq,
       tx_gasPrice = numberField tm (of_int gasPrice'),
       tx_data = drop 2 (case encodedCall rq of Some c \<Rightarrow> c | None \<Rightarrow> ''0x''),
       tx_nonce = nonceArgument tm nonce' \<rparr>"

definition sendMetadata :: "send_transaction_details \<Rightarrow> stored_transaction_metadata" where
  "sendMetadata rq =
     \<lparr> md_from = signer rq,
       md_attempts = 1,
       md_serverAction = rq_serverAction rq,
       md_creationBlockNumber = rq_creationBlockNumber rq,
       md_boostBlockNumber = None,
       md_minedBlockNumber = None \<rparr>"

text \<open>
  The \<open>try\<close> block of \<open>sendTransaction\<close>, which runs under the nonce mutex. The counter
  is incremented on the line before \<open>putTx\<close> is awaited, and nothing restores it
  when \<open>putTx\<close> throws.
\<close>

definition sendSection ::
  "transaction_manager \<Rightarrow> manager_state \<Rightarrow> send_transaction_details \<Rightarrow> int
     \<Rightarrow> manager_state \<times> (error + hex \<times> stored_transaction)" where
  "sendSection tm st rq gasPrice' =
     (case pollNonce (contractInteractor tm) (nonces st) (signer rq) of
        Inl e \<Rightarrow> (st, Inl e)
      | Inr (nonces1, nonce') \<Rightarrow>
          (let st1 = st\<lparr>nonces := nonces1\<rparr>;
               txToSign = sendTxToSign tm rq gasPrice' nonce'
           in case signTransaction (selectKeyManager tm (signer rq)) (signer rq) txToSign of
                Inl e \<Rightarrow> (st1, Inl e)
              | Inr signed \<Rightarrow>
                  (let storedTx = createStoredTransaction (txHash tm) txToSign signed (sendMetadata rq);
                       st2 = st1\<lparr>nonces := nonces1(signer rq \<mapsto> increment (nonces1 (signer rq)))\<rparr>
                   in case putTx storedTx False (txStore st2) of
                        Inl e \<Rightarrow> (st2, Inl e)
                      | Inr store' \<Rightarrow> (st2\<lparr>txStore := store'\<rparr>, Inr (signed, storedTx)))))"

text \<open>The broadcast and the comparison of the returned hash with the row's \<open>txId\<close>.\<close>

definition checkBroadcast ::
  "transaction_manager \<Rightarrow> hex \<Rightarrow> stored_transaction \<Rightarrow> error + signed_transaction_details" where
  "checkBroadcast tm signed storedTx =
     (case broadcastTransaction (contractInteractor tm) signed of
        None \<Rightarrow> Inl ChainRpcError
      | Some h \<Rightarrow>
          if toLowerCase h \<noteq> toLowerCase (txId storedTx) then Inl HashMismatch
          else Inr \<lparr> transactionHash = h, signedTx = signed \<rparr>)"

definition sendTransaction ::
  "transaction_manager \<Rightarrow> manager_state \<Rightarrow> send_transaction_details
     \<Rightarrow> manager_state \<times> (error + signed_transaction_details)" where
  "sendTransaction tm st rq =
     (case resolveGasPrice tm rq of
        None \<Rightarrow> (st, Inl ChainRpcError)
      | Some gasPrice' \<Rightarrow>
          (case sendSection tm st rq gasPrice' of
             (st', Inl e) \<Rightarrow> (st', Inl e)
           | (st', Inr (signed, storedTx)) \<Rightarrow> (st', checkBroadcast tm signed storedTx)))"

subsection \<open>Resending\<close>

definition updateTransactionWithMinedBlock ::
  "stored_transaction \<Rightarrow> int \<Rightarrow> tx_store \<Rightarrow> error + tx_store" where
  "updateTransactionWithMinedBlock tx minedBlock s =
     putTx (tx\<lparr>minedBlockNumber := Some minedBlock\<rparr>) True s"

definition attemptMetadata :: "stored_transaction \<Rightarrow> int \<Rightarrow> stored_transaction_metadata" where
  "attemptMetadata tx currentBlock =
     \<lparr> md_from = from_addr tx,
       md_attempts = attempts tx + 1,
       md_serverAction = serverAction tx,
       md_creationBlockNumber = creationBlockNumber tx,
       md_boostBlockNumber = Some currentBlock,
       md_minedBlockNumber = minedBlockNumber tx \<rparr>"

definition updateTransactionWithAttempt ::
  "transaction_manager \<Rightarrow> transaction \<Rightarrow> hex \<Rightarrow> stored_transaction \<Rightarrow> int \<Rightarrow> tx_store
     \<Rightarrow> error + tx_store \<times> stored_transaction" where
  "updateTransactionWithAttempt tm txToSign signed tx currentBlock s =
     (let storedTx = createStoredTransaction (txHash tm) txToSign signed (attemptMetadata tx currentBlock)
      in case putTx storedTx True s of
           Inl e \<Rightarrow> Inl e
         | Inr s' \<Rightarrow> Inr (s', storedTx))"

text \<open>
  The transaction that \<open>resendTransaction\<close> builds; it passes no \<open>value\<close>. The new gas
  price is a number and can have a fraction; the transaction holds an integer.
\<close>

definition resendTxToSign :: "transaction_manager \<Rightarrow> stored_transaction \<Rightarrow> rat \<Rightarrow> transaction" where
  "resendTxToSign tm tx newGasPrice =
     \<lparr> tx_to = to_addr tx,
       tx_value = None,
       tx_gasLimit = gas tx,
       tx_gasPrice = numberField tm newGasPrice,
       tx_data = data tx,
       tx_nonce = nonce tx \<rparr>"

text \<open>
  \<open>resendTransaction\<close>. The flag \<open>isMaxGasPriceReached\<close> only reaches the log. The
  latest transaction count is fetched for the log as well, but the call can throw.
\<close>

definition resendTransaction ::
  "transaction_manager \<Rightarrow> tx_store \<Rightarrow> stored_transaction \<Rightarrow> int \<Rightarrow> rat \<Rightarrow> bool
     \<Rightarrow> tx_store \<times> (error + signed_transaction_details)" where
  "resendTransaction tm s tx currentBlock newGasPrice isMaxGasPriceReached =
     (let txToSign = resendTxToSign tm tx newGasPrice
      in case signTransaction (selectKeyManager tm (from_addr tx)) (from_addr tx) txToSign of
           Inl e \<Rightarrow> (s, Inl e)
         | Inr signed \<Rightarrow>
             (case updateTransactionWithAttempt tm txToSign signed tx currentBlock s of
                Inl e \<Rightarrow> (s, Inl e)
              | Inr (s', storedTx) \<Rightarrow>
                  (case getTransactionCount (contractInteractor tm) (from_addr tx) Latest of
                     None \<Rightarrow> (s', Inl ChainRpcError)
                   | Some currentNonce \<Rightarrow> (s', checkBroadcast tm signed storedTx))))"

subsection \<open>Removing confirmed transactions\<close>

definition shouldRecheck :: "config \<Rightarrow> int \<Rightarrow> stored_transaction \<Rightarrow> bool" where
  "shouldRecheck cfg blockNumber tx =
     (case minedBlockNumber tx of
        None \<Rightarrow> True
      | Some m \<Rightarrow> blockNumber - m \<ge> confirmationsNeeded cfg)"

text \<open>
  The \<open>for\<close> loop of \<open>removeConfirmedTransactions\<close> over the rows that were loaded
  before it; the store is the state that the iterations share.
\<close>

fun removeConfirmedLoop ::
  "transaction_manager \<Rightarrow> int \<Rightarrow> stored_transaction list \<Rightarrow> tx_store \<Rightarrow> tx_store \<times> (error + unit)" where
  "removeConfirmedLoop tm blockNumber [] s = (s, Inr ())"
| "removeConfirmedLoop tm blockNumber (tx # txs) s =
     (if shouldRecheck (tm_config tm) blockNumber tx then
        (case getTransaction (contractInteractor tm) (txId tx) of
           None \<Rightarrow> (s, Inl ChainRpcError)
         | Some None \<Rightarrow> removeConfirmedLoop tm blockNumber txs s
         | Some (Some rc) \<Rightarrow>
             (case rc_blockNumber rc of
                None \<Rightarrow> removeConfirmedLoop tm blockNumber txs s
              | Some rb \<Rightarrow>
                  (let confirmations = blockNumber - rb
                   in if Some rb \<noteq> minedBlockNumber tx
                         \<and> confirmations < confirmationsNeeded (tm_config tm)
                      then (case updateTransactionWithMinedBlock tx rb s of
                              Inl e \<Rightarrow> (s, Inl e)
                            | Inr s' \<Rightarrow> removeConfirmedLoop tm blockNumber txs s')
                      else removeConfirmedLoop tm blockNumber txs
                             (removeTxsUntilNonce (rc_from rc) (rc_nonce rc) s))))
      else removeConfirmedLoop tm blockNumber txs s)"

definition removeConfirmedTransactions ::
  "transaction_manager \<Rightarrow> int \<Rightarrow> tx_store \<Rightarrow> tx_store \<times> (error + unit)" where
  "removeConfirmedTransactions tm blockNumber s =
     (let sortedTxs = getAll s
      in if sortedTxs = [] then (s, Inr ())
         else removeConfirmedLoop tm blockNumber sortedTxs s)"

subsection \<open>Boosting\<close>

type_synonym boosted = "hex \<rightharpoonup> signed_transaction_details"

text \<open>The \<open>for\<close> loop over \<open>underpricedTransactions\<close>, with the map it fills.\<close>

fun boostLoop ::
  "transaction_manager \<Rightarrow> int \<Rightarrow> rat \<Rightarrow> bool \<Rightarrow> stored_transaction list \<Rightarrow> tx_store \<Rightarrow> boosted
     \<Rightarrow> tx_store \<times> (error + boosted)" where
  "boostLoop tm currentBlockHeight newGasPrice capped [] s boostedTransactions =
     (s, Inr boostedTransactions)"
| "boostLoop tm currentBlockHeight newGasPrice capped (tx # txs) s boostedTransactions =
     (case resendTransaction tm s tx currentBlockHeight newGasPrice capped of
        (s', Inl e) \<Rightarrow> (s', Inl e)
      | (s', Inr details) \<Rightarrow>
          boostLoop tm currentBlockHeight newGasPrice capped txs s'
            (boostedTransactions(txId tx \<mapsto> details)))"

definition lastSentAtBlockHeight :: "stored_transaction \<Rightarrow> int" where
  "lastSentAtBlockHeight tx =
     (case boostBlockNumber tx of Some b \<Rightarrow> b | None \<Rightarrow> creationBlockNumber tx)"

definition underpricedTransactions ::
  "config \<Rightarrow> stored_transaction list \<Rightarrow> stored_transaction \<Rightarrow> stored_transaction list" where
  "underpricedTransactions cfg sortedTxs oldestPendingTx =
     filter (\<lambda>it. of_int (gasPrice it) < fst (resolveNewGasPrice cfg (gasPrice oldestPendingTx)))
       sortedTxs"

definition boostUnderpricedPendingTransactionsForSigner ::
  "transaction_manager \<Rightarrow> tx_store \<Rightarrow> address \<Rightarrow> int \<Rightarrow> tx_store \<times> (error + boosted)" where
  "boostUnderpricedPendingTransactionsForSigner tm s signer' currentBlockHeight =
     (case getAllBySigner signer' s of
        [] \<Rightarrow> (s, Inr Map.empty)
      | oldestPendingTx # rest \<Rightarrow>
          (case getTransactionCount (contractInteractor tm) signer' Latest of
             None \<Rightarrow> (s, Inl ChainRpcError)
           | Some nonce' \<Rightarrow>
               if nonce oldestPendingTx < nonce' then (s, Inr Map.empty)
               else if currentBlockHeight - lastSentAtBlockHeight oldestPendingTx
                         < pendingTransactionTimeoutBlocks (tm_config tm)
               then (s, Inr Map.empty)
               else (case resolveNewGasPrice (tm_config tm) (gasPrice oldestPendingTx) of
                       (newGasPrice, isMaxGasPriceReached) \<Rightarrow>
                         boostLoop tm currentBlockHeight newGasPrice isMaxGasPriceReached
                           (underpricedTransactions (tm_config tm) (oldestPendingTx # rest) oldestPendingTx)
                           s Map.empty)))"

subsection \<open>Sample configurations and inputs\<close>

definition cfg1 :: config where
  "cfg1 = \<lparr> retryGasPriceFactorConfigured = 3/2, maxGasPrice = 100,
            estimateGasFactorConfigured = 11/10,
            defaultGasLimit = 500000, confirmationsNeeded = 12,
            pendingTransactionTimeoutBlocks = 10 \<rparr>"

text \<open>The same configuration with factor \<open>11/10\<close> and a given cap.\<close>

definition cfgTenth :: "int \<Rightarrow> config" where
  "cfgTenth cap = cfg1 \<lparr> retryGasPriceFactorConfigured := 11/10, maxGasPrice := cap \<rparr>"

definition managerKeys :: key_manager where
  "managerKeys = \<lparr> getAddress = (\<lambda>i. ''0xaa''), isSigner = (\<lambda>a. a = ''0xaa''),
                    signWith = (\<lambda>a tx. a @ tx_data tx) \<rparr>"

definition workerKeys :: key_manager where
  "workerKeys = \<lparr> getAddress = (\<lambda>i. ''0xbb''), isSigner = (\<lambda>a. a = ''0xbb''),
                   signWith = (\<lambda>a tx. a @ tx_data tx) \<rparr>"

text \<open>A chain whose pending and latest counts are 5 and whose broadcast answers the
  hash of the signed bytes in upper case.\<close>

definition chain1 :: contract_interactor where
  "chain1 = \<lparr> getGasPrice = Some 10,
              getTransactionCount = (\<lambda>a t. Some 5),
              broadcastTransaction = (\<lambda>s. Some (''0xH'' @ s)),
              getTransaction = (\<lambda>h. Some None) \<rparr>"

definition tm1 :: transaction_manager where
  "tm1 = \<lparr> managerKeyManager = managerKeys, workersKeyManager = workerKeys,
           contractInteractor = chain1, tm_config = cfg1,
           txHash = (\<lambda>s. ''0xh'' @ s), nonNumericNonce = 0,
           irregularNumber = (\<lambda>x. \<lfloor>x\<rfloor>), parseIntExponential = (\<lambda>n. 1) \<rparr>"

text \<open>The same manager with a given gas estimation factor.\<close>

definition tmFactor :: "rat \<Rightarrow> transaction_manager" where
  "tmFactor f = tm1 \<lparr> tm_config := cfg1 \<lparr> estimateGasFactorConfigured := f \<rparr> \<rparr>"

text \<open>The same chain with pending and latest counts 0.\<close>

definition chain0 :: contract_interactor where
  "chain0 = chain1 \<lparr> getTransactionCount := (\<lambda>a t. Some 0) \<rparr>"

definition tm0 :: transaction_manager where
  "tm0 = tm1 \<lparr> contractInteractor := chain0 \<rparr>"

text \<open>A row with the given id, signer, nonce and gas price, created at block 100.\<close>

definition row :: "hex \<Rightarrow> address \<Rightarrow> int \<Rightarrow> int \<Rightarrow> stored_transaction" where
  "row i f n g =
     \<lparr> txId = i, from_addr = f, to_addr = ''0xdd'', gas = 21000, gasPrice = g,
       stored_value = Some ''0x'', data = [], nonce = n, attempts = 1, serverAction = 0,
       creationBlockNumber = 100, boostBlockNumber = None, minedBlockNumber = None \<rparr>"

definition request :: "address \<Rightarrow> int option \<Rightarrow> send_transaction_details" where
  "request a g =
     \<lparr> signer = a, rq_serverAction = 0, encodedCall = None, destination = ''0xdd'',
       rq_value = None, gasLimit = 21000, rq_gasPrice = g, rq_creationBlockNumber = 100 \<rparr>"

text \<open>The state after a restart: fresh counters, one persisted row.\<close>

definition restarted :: "stored_transaction \<Rightarrow> manager_state" where
  "restarted r = \<lparr> nonces = initNonces managerKeys workerKeys, txStore = [r] \<rparr>"

text \<open>A chain that answers no gas price query, and one whose broadcast answers a
  foreign hash.\<close>

definition chainDown :: contract_interactor where
  "chainDown = chain1 \<lparr> getGasPrice := None \<rparr>"

definition tmDown :: transaction_manager where
  "tmDown = tm1 \<lparr> contractInteractor := chainDown \<rparr>"

definition chainOther :: contract_interactor where
  "chainOther = chain1 \<lparr> broadcastTransaction := (\<lambda>s. Some ''0xdead'') \<rparr>"

definition tmOther :: transaction_manager where
  "tmOther = tm1 \<lparr> contractInteractor := chainOther \<rparr>"

definition fresh :: manager_state where
  "fresh = \<lparr> nonces = initNonces managerKeys workerKeys, txStore = [] \<rparr>"

text \<open>A chain that knows no receipt for \<open>0x01\<close>, a receipt in block 105 for \<open>0x02\<close> and a
  receipt in block 100 for every other hash.\<close>

definition chainReceipts :: contract_interactor where
  "chainReceipts = chain1 \<lparr> getTransaction :=
     (\<lambda>h. if h = ''0x01'' then Some None
          else if h = ''0x02''
          then Some (Some \<lparr> rc_blockNumber = Some 105, rc_from = ''0xaa'', rc_nonce = 6 \<rparr>)
          else Some (Some \<lparr> rc_blockNumber = Some 100, rc_from = ''0xaa'', rc_nonce = 7 \<rparr>)) \<rparr>"

definition tmReceipts :: transaction_manager where
  "tmReceipts = tm1 \<lparr> contractInteractor := chainReceipts \<rparr>"

definition threeRows :: tx_store where
  "threeRows = [row ''0x01'' ''0xaa'' 5 10, row ''0x02'' ''0xaa'' 6 15, row ''0x03'' ''0xaa'' 7 30]"

text \<open>What a successful broadcast of the manager's signed bytes returns on \<open>chain1\<close>.\<close>

definition sentDetails :: signed_transaction_details where
  "sentDetails = \<lparr> transactionHash = ''0xH0xaa'', signedTx = ''0xaa'' \<rparr>"

text \<open>The oldest row already at the configured cap of 100, alone and with a cheaper
  successor.\<close>

definition cappedRow :: tx_store where
  "cappedRow = [row ''0x01'' ''0xaa'' 5 100]"

definition cappedThenCheap :: tx_store where
  "cappedThenCheap = [row ''0x01'' ''0xaa'' 5 100, row ''0x02'' ''0xaa'' 6 50]"

text \<open>A chain whose counts are 6, so that nonce 5 is mined.\<close>

definition tmMined :: transaction_manager where
  "tmMined = tm1 \<lparr> contractInteractor := chain1 \<lparr> getTransactionCount := (\<lambda>a t. Some 6) \<rparr> \<rparr>"

section \<open>Properties\<close>

subsection \<open>Rounding to a number\<close>

lemma exponent_bounds:
  assumes "0 < x"
  shows "2 powi exponent x \<le> x \<and> x < 2 powi (exponent x + 1)"
proof (cases "1 \<le> x")
  case True
  define n where "n = nat \<lfloor>x\<rfloor>"
  define k where "k = floorlog 2 n"
  have n1: "1 \<le> n" using True by (simp add: n_def le_nat_iff)
  then have npos: "0 < n" by simp
  from floorlog_bounds [OF npos, of 2] have lo: "2 ^ (k - 1) \<le> n" and hi: "n < 2 ^ k"
    by (simp_all add: k_def)
  have kpos: "0 < k" using hi n1 by (cases k) auto
  have e: "exponent x = int k - 1" using True by (simp add: exponent_def k_def n_def)
  have nx: "of_nat n \<le> x" using True by (simp add: n_def)
  have xn: "x < of_nat n + 1" using True by (simp add: n_def) linarith
  have "int k - 1 = int (k - 1)" using kpos by simp
  then have "(2::rat) powi (int k - 1) = 2 ^ (k - 1)" by (metis power_int_of_nat)
  also have "\<dots> = of_nat (2 ^ (k - 1))" by simp
  also have "\<dots> \<le> of_nat n" using lo by (simp only: of_nat_le_iff)
  finally have A: "2 powi exponent x \<le> x" using nx e by simp
  have "n + 1 \<le> 2 ^ k" using hi by simp
  then have "(of_nat (n + 1) :: rat) \<le> of_nat (2 ^ k)" by (simp only: of_nat_le_iff)
  then have "of_nat n + 1 \<le> (2::rat) ^ k" by simp
  with xn have "x < 2 ^ k" by simp
  also have "(2::rat) ^ k = 2 powi (int k)" by simp
  finally have B: "x < 2 powi (exponent x + 1)" using e by simp
  from A B show ?thesis ..
next
  case False
  define y where "y = 1 / x"
  define c where "c = \<lceil>y\<rceil>"
  define n where "n = nat (c - 1)"
  define j where "j = floorlog 2 n"
  have y1: "1 < y" using False assms by (simp add: y_def)
  have c2: "2 \<le> c" using y1 unfolding c_def by linarith
  then have npos: "0 < n" by (simp add: n_def)
  from floorlog_bounds [OF npos, of 2] have lo: "2 ^ (j - 1) \<le> n" and hi: "n < 2 ^ j"
    by (simp_all add: j_def)
  have jpos: "0 < j" using hi npos by (cases j) auto
  have e: "exponent x = - int j" using False by (simp add: exponent_def j_def n_def c_def y_def)
  have ny: "of_nat n < y" 
  proof -
    have "of_int (c - 1) < y" unfolding c_def by linarith
    moreover have "(of_nat n :: rat) = of_int (c - 1)" using c2 by (simp add: n_def)
    ultimately show ?thesis by simp
  qed
  have yn: "y \<le> of_nat n + 1"
  proof -
    have "y \<le> of_int c" unfolding c_def by linarith
    moreover have "(of_nat n :: rat) + 1 = of_int c" using c2 by (simp add: n_def)
    ultimately show ?thesis by simp
  qed
  have "n + 1 \<le> 2 ^ j" using hi by simp
  then have "(of_nat (n + 1) :: rat) \<le> of_nat (2 ^ j)" by (simp only: of_nat_le_iff)
  then have "y \<le> 2 ^ j" using yn by simp
  then have "1 / 2 ^ j \<le> x" using assms by (simp add: y_def field_simps)
  moreover have "(2::rat) powi (- int j) = 1 / 2 ^ j"
    by (simp add: power_int_minus field_simps)
  ultimately have A: "2 powi exponent x \<le> x" using e by simp
  have "(2::rat) ^ (j - 1) = of_nat (2 ^ (j - 1))" by simp
  also have "\<dots> \<le> of_nat n" using lo by (simp only: of_nat_le_iff)
  also have "\<dots> < y" by (rule ny)
  finally have "2 ^ (j - 1) < y" .
  then have "x < 1 / 2 ^ (j - 1)" using assms by (simp add: y_def field_simps)
  moreover have "(2::rat) powi (- int j + 1) = 1 / 2 ^ (j - 1)"
  proof -
    have "- int j + 1 = - int (j - 1)" using jpos by simp
    then have "(2::rat) powi (- int j + 1) = 2 powi (- int (j - 1))" by (simp only:)
    also have "\<dots> = inverse (2 powi int (j - 1))" by (rule power_int_minus)
    also have "\<dots> = 1 / 2 ^ (j - 1)" by (simp add: divide_inverse)
    finally show ?thesis .
  qed
  ultimately have B: "x < 2 powi (exponent x + 1)" using e by simp
  from A B show ?thesis ..
qed

lemma roundHalfEven_cases:
  "(roundHalfEven y = \<lfloor>y\<rfloor> \<and> y - of_int \<lfloor>y\<rfloor> \<le> 1 / 2)
   \<or> (roundHalfEven y = \<lfloor>y\<rfloor> + 1 \<and> 1 / 2 \<le> y - of_int \<lfloor>y\<rfloor>)"
proof -
  consider "y - of_int \<lfloor>y\<rfloor> < 1 / 2" | "1 / 2 < y - of_int \<lfloor>y\<rfloor>"
    | "y - of_int \<lfloor>y\<rfloor> = 1 / 2" "even \<lfloor>y\<rfloor>" | "y - of_int \<lfloor>y\<rfloor> = 1 / 2" "odd \<lfloor>y\<rfloor>"
    by fastforce
  then show ?thesis
  proof cases
    case 1
    then have "roundHalfEven y = \<lfloor>y\<rfloor>" by (simp add: roundHalfEven_def)
    with 1 show ?thesis by simp
  next
    case 2
    then have "roundHalfEven y = \<lfloor>y\<rfloor> + 1" by (simp add: roundHalfEven_def)
    with 2 show ?thesis by simp
  next
    case 3
    then have "roundHalfEven y = \<lfloor>y\<rfloor>" by (simp add: roundHalfEven_def)
    with 3 show ?thesis by simp
  next
    case 4
    then have "roundHalfEven y = \<lfloor>y\<rfloor> + 1" by (simp add: roundHalfEven_def)
    with 4 show ?thesis by simp
  qed
qed

lemma roundHalfEven_bounds:
  "y - 1 / 2 \<le> of_int (roundHalfEven y) \<and> of_int (roundHalfEven y) \<le> y + 1 / 2"
proof -
  have f: "of_int \<lfloor>y\<rfloor> \<le> y" "y < of_int \<lfloor>y\<rfloor> + 1" by linarith+
  from roundHalfEven_cases [of y] show ?thesis
  proof (elim disjE conjE)
    assume "roundHalfEven y = \<lfloor>y\<rfloor>" "y - of_int \<lfloor>y\<rfloor> \<le> 1 / 2"
    with f show ?thesis by linarith
  next
    assume "roundHalfEven y = \<lfloor>y\<rfloor> + 1" "1 / 2 \<le> y - of_int \<lfloor>y\<rfloor>"
    with f show ?thesis by (simp only: of_int_add of_int_1) linarith
  qed
qed

lemma roundHalfEven_ge: "of_int k \<le> y \<Longrightarrow> k \<le> roundHalfEven y"
proof -
  assume "of_int k \<le> y"
  then have "k \<le> \<lfloor>y\<rfloor>" by (simp add: le_floor_iff)
  then show ?thesis by (auto simp: roundHalfEven_def Let_def)
qed

lemma roundHalfEven_le: "y \<le> of_int k \<Longrightarrow> roundHalfEven y \<le> k"
proof -
  assume a: "y \<le> of_int k"
  show ?thesis
  proof (cases "y = of_int k")
    case True
    then show ?thesis by (simp add: roundHalfEven_def)
  next
    case False
    with a have "y < of_int k" by simp
    then have "\<lfloor>y\<rfloor> < k" by (simp add: floor_less_iff)
    then show ?thesis by (auto simp: roundHalfEven_def Let_def)
  qed
qed

lemma ulp_times: "(2::rat) powi (e - 52) * 2 ^ 52 = 2 powi e"
proof -
  have "(2::rat) powi (e - 52) * 2 powi 52 = 2 powi (e - 52 + 52)"
    by (rule power_int_add [symmetric]) simp
  moreover have "(2::rat) powi 52 = 2 ^ 52" by (metis power_int_of_nat of_nat_numeral)
  ultimately show ?thesis by simp
qed

lemma mantissa_bounds:
  assumes "0 < x"
  shows "2 ^ 52 \<le> roundHalfEven (x / 2 powi (exponent x - 52))
       \<and> roundHalfEven (x / 2 powi (exponent x - 52)) \<le> 2 ^ 53"
proof -
  define u :: rat where "u = 2 powi (exponent x - 52)"
  have upos: "0 < u" by (simp add: u_def)
  from exponent_bounds [OF assms] have lo: "2 powi exponent x \<le> x"
    and hi: "x < 2 powi (exponent x + 1)" by simp_all
  have e: "u * 2 ^ 52 = 2 powi exponent x" unfolding u_def by (rule ulp_times)
  have "(2::rat) powi (exponent x + 1) = 2 powi exponent x * 2 powi 1"
    by (rule power_int_add) simp
  then have e1: "u * 2 ^ 53 = 2 powi (exponent x + 1)" using e by simp
  have "u * 2 ^ 52 \<le> x" using lo e by simp
  then have "2 ^ 52 \<le> x / u" using upos by (simp add: field_simps)
  then have "of_int (2 ^ 52) \<le> x / u" by simp
  then have A: "2 ^ 52 \<le> roundHalfEven (x / u)" by (rule roundHalfEven_ge)
  have "x \<le> u * 2 ^ 53" using hi e1 by simp
  then have "x / u \<le> 2 ^ 53" using upos by (simp add: field_simps)
  then have "x / u \<le> of_int (2 ^ 53)" by simp
  then have B: "roundHalfEven (x / u) \<le> 2 ^ 53" by (rule roundHalfEven_le)
  from A B show ?thesis unfolding u_def ..
qed

lemma nearestPositive_lower:
  assumes "0 < x"
  shows "x * (1 - 1 / 2 ^ 53) \<le> nearestPositive x"
proof -
  define u :: rat where "u = 2 powi (exponent x - 52)"
  define m where "m = roundHalfEven (x / u)"
  have upos: "0 < u" by (simp add: u_def)
  have np: "nearestPositive x = of_int m * u"
    by (simp add: nearestPositive_def Let_def u_def m_def)
  from exponent_bounds [OF assms] have lo: "2 powi exponent x \<le> x" by simp
  have "u * 2 ^ 52 = 2 powi exponent x" unfolding u_def by (rule ulp_times)
  with lo have ux: "u * 2 ^ 52 \<le> x" by simp
  from roundHalfEven_bounds [of "x / u"] have "x / u - 1 / 2 \<le> of_int m" by (simp add: m_def)
  then have "(x / u - 1 / 2) * u \<le> of_int m * u" using upos by (simp only: mult_le_cancel_right_pos)
  moreover have "(x / u - 1 / 2) * u = x - u / 2" using upos by (simp add: field_simps)
  ultimately have "x - u / 2 \<le> nearestPositive x" using np by simp
  moreover have "x * (1 - 1 / 2 ^ 53) \<le> x - u / 2" using ux by (simp add: field_simps)
  ultimately show ?thesis by simp
qed

lemma nearestPositive_range:
  assumes "0 < x"
  shows "2 powi exponent x \<le> nearestPositive x \<and> nearestPositive x \<le> 2 powi (exponent x + 1)"
proof -
  define u :: rat where "u = 2 powi (exponent x - 52)"
  define m where "m = roundHalfEven (x / u)"
  have upos: "0 < u" by (simp add: u_def)
  have np: "nearestPositive x = of_int m * u"
    by (simp add: nearestPositive_def Let_def u_def m_def)
  have e: "u * 2 ^ 52 = 2 powi exponent x" unfolding u_def by (rule ulp_times)
  have "(2::rat) powi (exponent x + 1) = 2 powi exponent x * 2 powi 1"
    by (rule power_int_add) simp
  then have e1: "u * 2 ^ 53 = 2 powi (exponent x + 1)" using e by simp
  from mantissa_bounds [OF assms] have m: "2 ^ 52 \<le> m" "m \<le> 2 ^ 53" by (simp_all add: m_def u_def)
  from m(1) have "(of_int (2 ^ 52) :: rat) \<le> of_int m" by (simp only: of_int_le_iff)
  then have "2 ^ 52 * u \<le> of_int m * u" using upos by (simp only: mult_le_cancel_right_pos) simp
  then have A: "2 powi exponent x \<le> nearestPositive x" using e np by (simp add: mult.commute)
  from m(2) have "(of_int m :: rat) \<le> of_int (2 ^ 53)" by (simp only: of_int_le_iff)
  then have "of_int m * u \<le> 2 ^ 53 * u" using upos by (simp only: mult_le_cancel_right_pos) simp
  then have B: "nearestPositive x \<le> 2 powi (exponent x + 1)" using e1 np by (simp add: mult.commute)
  from A B show ?thesis ..
qed

lemma toNumber_above_one:
  assumes "1 < toNumber c"
  shows "1 + 1 / 2 ^ 52 \<le> toNumber c"
proof -
  have cpos: "0 < c"
  proof (rule ccontr)
    assume "\<not> 0 < c"
    then consider "c = 0" | "c < 0" by fastforce
    then show False
    proof cases
      case 1
      with assms show False by (simp add: toNumber_def)
    next
      case 2
      then have "0 < - c" by simp
      from nearestPositive_range [OF this] have "0 \<le> nearestPositive (- c)"
        by (meson order_trans zero_less_power_int less_imp_le zero_less_numeral)
      with 2 assms show False by (simp add: toNumber_def)
    qed
  qed
  then have tn: "toNumber c = nearestPositive c" by (simp add: toNumber_def)
  define u :: rat where "u = 2 powi (exponent c - 52)"
  define m where "m = roundHalfEven (c / u)"
  have np: "nearestPositive c = of_int m * u"
    by (simp add: nearestPositive_def Let_def u_def m_def)
  note rg = nearestPositive_range [OF cpos]
  consider "1 \<le> exponent c" | "exponent c = 0" | "exponent c \<le> - 1" by linarith
  then show ?thesis
  proof cases
    case 1
    then have "(2::rat) powi 1 \<le> 2 powi exponent c" by (intro power_int_increasing) simp_all
    with rg tn show ?thesis by simp
  next
    case 2
    then have u: "u = 1 / 2 ^ 52"
      unfolding u_def using ulp_times [of 0] by (simp add: field_simps)
    from assms tn np u have "2 ^ 52 < (of_int m :: rat)" by (simp add: field_simps)
    then have "(of_int (2 ^ 52) :: rat) < of_int m" by simp
    then have "2 ^ 52 < m" by (simp only: of_int_less_iff)
    then have "2 ^ 52 + 1 \<le> m" by simp
    then have "(of_int (2 ^ 52 + 1) :: rat) \<le> of_int m" by (simp only: of_int_le_iff)
    then show ?thesis using tn np u by (simp add: field_simps)
  next
    case 3
    then have "(2::rat) powi (exponent c + 1) \<le> 2 powi 0" by (intro power_int_increasing) simp_all
    with rg tn assms show ?thesis by simp
  qed
qed

lemma toNumber_product_raises:
  assumes x: "0 < x" and c: "1 < toNumber c"
  shows "x < toNumber (x * toNumber c)"
proof -
  define f where "f = toNumber c"
  have f: "1 + 1 / 2 ^ 52 \<le> f" unfolding f_def using c by (rule toNumber_above_one)
  have fpos: "0 < f" using f by (simp add: add_pos_pos)
  have ppos: "0 < x * f" using x fpos by simp
  then have "x * f \<noteq> 0" by (rule less_imp_neq [THEN not_sym])
  with ppos have "toNumber (x * f) = nearestPositive (x * f)" by (simp only: toNumber_def if_False if_True)
  moreover from nearestPositive_lower [OF ppos]
  have "x * f * (1 - 1 / 2 ^ 53) \<le> nearestPositive (x * f)" .
  moreover have "x < x * f * (1 - 1 / 2 ^ 53)"
  proof -
    have "(1 + 1 / 2 ^ 52) * (1 - 1 / 2 ^ 53) \<le> f * (1 - 1 / 2 ^ 53)"
      using f by (intro mult_right_mono) simp_all
    moreover have "(1::rat) < (1 + 1 / 2 ^ 52) * (1 - 1 / 2 ^ 53)" by simp
    ultimately have "1 < f * (1 - 1 / 2 ^ 53)" by simp
    then have "x * 1 < x * (f * (1 - 1 / 2 ^ 53))" using x by (simp only: mult_less_cancel_left_pos)
    then show ?thesis by (simp add: mult.assoc)
  qed
  ultimately show ?thesis unfolding f_def by simp
qed

subsection \<open>Repricing\<close>

text \<open>
  C4, as the source computes it. \<open>_resolveNewGasPrice\<close> multiplies the old price by
  \<open>retryGasPriceFactor\<close> as numbers and takes no floor. When that product, the double
  nearest to the exact product, does not exceed \<open>maxGasPrice\<close>, equality included,
  the new price is the product itself and the cap flag is false; when it strictly
  exceeds \<open>maxGasPrice\<close>, the new price is \<open>maxGasPrice\<close> and the flag is true.
\<close>

theorem resolveNewGasPrice_no_floor:
  "(toNumber (of_int oldGasPrice * retryGasPriceFactor cfg) \<le> of_int (maxGasPrice cfg)
      \<longrightarrow> resolveNewGasPrice cfg oldGasPrice
            = (toNumber (of_int oldGasPrice * retryGasPriceFactor cfg), False))
   \<and> (toNumber (of_int oldGasPrice * retryGasPriceFactor cfg) > of_int (maxGasPrice cfg)
      \<longrightarrow> resolveNewGasPrice cfg oldGasPrice = (of_int (maxGasPrice cfg), True))"
  by (simp add: resolveNewGasPrice_def Let_def)

text \<open>
  With factor \<open>3/2\<close> and cap 100: the price 3 gives \<open>9/2\<close> and the price 90 gives the
  cap. With factor \<open>11/10\<close>: the price 10 gives 11, which a cap of 11 lets pass, and the
  price 100 gives a double above 110, which a cap of 110 cuts.
\<close>

lemma product_samples:
  "toNumber (3 * retryGasPriceFactor cfg1) = 9 / 2"
  "toNumber (90 * retryGasPriceFactor cfg1) = 135"
  "toNumber (10 * retryGasPriceFactor (cfgTenth 11)) = 11"
  "toNumber (100 * retryGasPriceFactor (cfgTenth 110)) = 7740561859543041 / 70368744177664"
  "maxGasPrice cfg1 = 100"
  "maxGasPrice (cfgTenth cap) = cap"
  by code_simp+

theorem resolveNewGasPrice_no_floor_witness:
  "resolveNewGasPrice cfg1 3 = (9 / 2, False)
   \<and> resolveNewGasPrice cfg1 90 = (100, True)
   \<and> resolveNewGasPrice (cfgTenth 11) 10 = (11, False)
   \<and> resolveNewGasPrice (cfgTenth 110) 100 = (110, True)"
  using resolveNewGasPrice_no_floor [of 3 cfg1] resolveNewGasPrice_no_floor [of 90 cfg1]
    resolveNewGasPrice_no_floor [of 10 "cfgTenth 11"]
    resolveNewGasPrice_no_floor [of 100 "cfgTenth 110"]
  by (simp add: product_samples)

text \<open>
  With factor \<open>3/2\<close> and cap 100, the old price 3 gives \<open>9/2\<close>, below the cap, and not
  its floor 4. With factor \<open>11/10\<close> and cap 110, the old price 100 has the exact
  product 110, the cap itself, and the code still cuts it.
\<close>

theorem resolveNewGasPrice_floor_counterexample:
  "of_int 3 * retryGasPriceFactorConfigured cfg1 \<le> (of_int (maxGasPrice cfg1) :: rat)
   \<and> fst (resolveNewGasPrice cfg1 3) = 9 / 2
   \<and> \<lfloor>of_int 3 * retryGasPriceFactorConfigured cfg1\<rfloor> = 4
   \<and> of_int 100 * retryGasPriceFactorConfigured (cfgTenth 110)
       = (of_int (maxGasPrice (cfgTenth 110)) :: rat)
   \<and> snd (resolveNewGasPrice (cfgTenth 110) 100) = True"
proof -
  have fl: "\<lfloor>(9::rat) / 2\<rfloor> = 4" by (rule floor_unique) simp_all
  have a: "resolveNewGasPrice cfg1 3 = (9 / 2, False)" by code_simp
  have b: "resolveNewGasPrice (cfgTenth 110) 100 = (110, True)" by code_simp
  have c: "retryGasPriceFactorConfigured cfg1 = 3 / 2"
    "retryGasPriceFactorConfigured (cfgTenth 110) = 11 / 10"
    by (simp_all add: cfg1_def cfgTenth_def)
  show ?thesis using fl by (simp add: a b c product_samples)
qed

subsection \<open>Gas estimation\<close>

text \<open>
  C9, with the product as the code computes it. \<open>attemptEstimateGas\<close> never fails.
  When the chain's estimate succeeds with an integer \<open>g\<close> of magnitude below \<open>10 ^ 21\<close>,
  it returns \<open>Math.round\<close> of the product of \<open>g\<close> and \<open>estimateGasFactor\<close> as numbers,
  that is, of the double nearest to the exact product; when the call throws it
  returns \<open>defaultGasLimit\<close>.
\<close>

theorem attemptEstimateGas_fallback:
  "(estimateGas = Some g \<and> \<bar>g\<bar> < 10 ^ 21 \<longrightarrow>
      attemptEstimateGas tm estimateGas
        = Inr (mathRound (toNumber (of_int g * estimateGasFactor (tm_config tm)))))
   \<and> (estimateGas = None \<longrightarrow>
        attemptEstimateGas tm estimateGas = Inr (defaultGasLimit (tm_config tm)))
   \<and> (\<forall>e. attemptEstimateGas tm estimateGas \<noteq> Inl e)"
  by (cases estimateGas) (simp_all add: attemptEstimateGas_def parseInt_def)

text \<open>
  With factor \<open>201/200\<close> the estimate 100 gives 100, where the exact product \<open>100.5\<close>
  rounds to 101; with factor \<open>41/40\<close> the estimate 20 gives 21, where the exact
  product of 20 and the double nearest to \<open>41/40\<close> lies below \<open>20.5\<close> and rounds to 20.
  The estimate \<open>10 ^ 21\<close> is printed as \<open>1e+21\<close>, from which \<open>parseInt\<close> reads 1.
\<close>

lemma estimate_samples:
  "mathRound (toNumber (100 * estimateGasFactor (tm_config (tmFactor (201 / 200))))) = 100"
  "mathRound (toNumber (20 * estimateGasFactor (tm_config (tmFactor (41 / 40))))) = 21"
  "mathRound (100 * estimateGasFactorConfigured (tm_config (tmFactor (201 / 200)))) = 101"
  "mathRound (100 * estimateGasFactor (tm_config (tmFactor (201 / 200)))) = 100"
  "mathRound (20 * estimateGasFactor (tm_config (tmFactor (41 / 40)))) = 20"
  "mathRound (20 * estimateGasFactorConfigured (tm_config (tmFactor (41 / 40)))) = 21"
  "defaultGasLimit (tm_config tm1) = 500000"
  "mathRound (toNumber (1 * estimateGasFactor (tm_config tm1))) = 1"
  "parseInt tm1 (10 ^ 21) = 1"
  by code_simp+

theorem attemptEstimateGas_fallback_witness:
  "attemptEstimateGas (tmFactor (201 / 200)) (Some 100) = Inr 100
   \<and> attemptEstimateGas (tmFactor (41 / 40)) (Some 20) = Inr 21
   \<and> attemptEstimateGas tm1 None = Inr 500000"
  using attemptEstimateGas_fallback [of "Some 100" 100 "tmFactor (201 / 200)"]
    attemptEstimateGas_fallback [of "Some 20" 20 "tmFactor (41 / 40)"]
    attemptEstimateGas_fallback [of None 0 tm1]
  by (simp add: estimate_samples)

theorem attemptEstimateGas_rounding_counterexample:
  "attemptEstimateGas tm1 (Some (10 ^ 21)) = Inr 1
   \<and> attemptEstimateGas (tmFactor (201 / 200)) (Some 100) = Inr 100
   \<and> mathRound (of_int 100 * estimateGasFactorConfigured (tm_config (tmFactor (201 / 200)))) = 101
   \<and> mathRound (of_int 100 * estimateGasFactor (tm_config (tmFactor (201 / 200)))) = 100
   \<and> attemptEstimateGas (tmFactor (41 / 40)) (Some 20) = Inr 21
   \<and> mathRound (of_int 20 * estimateGasFactor (tm_config (tmFactor (41 / 40)))) = 20
   \<and> mathRound (of_int 20 * estimateGasFactorConfigured (tm_config (tmFactor (41 / 40)))) = 21"
proof -
  have "attemptEstimateGas tm1 (Some (10 ^ 21)) = Inr 1"
    by (simp only: attemptEstimateGas_def option.case estimate_samples of_int_1)
  moreover have "attemptEstimateGas (tmFactor (201 / 200)) (Some 100) = Inr 100"
    "attemptEstimateGas (tmFactor (41 / 40)) (Some 20) = Inr 21"
    by (simp_all add: attemptEstimateGas_def parseInt_def estimate_samples)
  ultimately show ?thesis by (simp add: estimate_samples)
qed

subsection \<open>Nonce counters\<close>

text \<open>
  C10. After \<open>_initNonces\<close> exactly two addresses have a counter: address 0 of the
  manager key manager and address 0 of the workers key manager. For any other
  address the counter reads as absent, the comparison of \<open>pollNonce\<close> is false for
  every pending count, and \<open>pollNonce\<close> leaves the counters as they are and returns
  the absent entry.
\<close>

theorem pollNonce_absent_counter:
  "dom (initNonces m w) = {getAddress m 0, getAddress w 0}
   \<and> (a \<noteq> getAddress m 0 \<and> a \<noteq> getAddress w 0 \<longrightarrow>
        initNonces m w a = None
        \<and> (\<forall>n. \<not> greaterThan n (initNonces m w a))
        \<and> (\<forall>n. getTransactionCount chain a Pending = Some n \<longrightarrow>
               pollNonce chain (initNonces m w) a = Inr (initNonces m w, None)))"
  by (auto simp: initNonces_def pollNonce_def)

theorem pollNonce_absent_counter_witness:
  "dom (initNonces managerKeys workerKeys) = {''0xaa'', ''0xbb''}
   \<and> pollNonce chain1 (initNonces managerKeys workerKeys) ''0xcc''
       = Inr (initNonces managerKeys workerKeys, None)"
  using pollNonce_absent_counter [of managerKeys workerKeys "''0xcc''" chain1]
  by (simp add: managerKeys_def workerKeys_def chain1_def)

subsection \<open>Sending: the counter and the store write\<close>

lemma pollNonce_counter_mono:
  assumes "pollNonce chain ns a = Inr (ns1, v)" and "ns a = Some (Num c)"
  shows "\<exists>c1. ns1 a = Some (Num c1) \<and> c \<le> c1"
  using assms by (auto simp: pollNonce_def Let_def split: option.splits if_splits)

text \<open>
  C1, as the source orders the two statements. \<open>sendTransaction\<close> increments the
  signer's counter before it calls \<open>putTx\<close>. When the gas price is resolved, the nonce
  is polled, the transaction is signed and \<open>putTx\<close> (with \<open>replace\<close> false) then raises,
  the call fails with the store's error and the counter keeps the incremented value:
  it is the counter that \<open>pollNonce\<close> left, plus one, so a counter that held a number
  before the call holds a strictly larger one after it.
\<close>

theorem sendTransaction_counter_after_failed_put:
  assumes gp: "resolveGasPrice tm rq = Some gp"
    and poll: "pollNonce (contractInteractor tm) (nonces st) (signer rq) = Inr (nonces1, nonce')"
    and sign: "signTransaction (selectKeyManager tm (signer rq)) (signer rq)
                 (sendTxToSign tm rq gp nonce') = Inr signed"
    and put: "putTx (createStoredTransaction (txHash tm) (sendTxToSign tm rq gp nonce') signed
                 (sendMetadata rq)) False (txStore st) = Inl e"
  shows "sendTransaction tm st rq
           = (st\<lparr>nonces := nonces1(signer rq \<mapsto> increment (nonces1 (signer rq)))\<rparr>, Inl e)
       \<and> (\<forall>c. nonces st (signer rq) = Some (Num c) \<longrightarrow>
            (\<exists>c'. nonces (fst (sendTransaction tm st rq)) (signer rq) = Some (Num c') \<and> c < c'))"
proof -
  have eq: "sendTransaction tm st rq
           = (st\<lparr>nonces := nonces1(signer rq \<mapsto> increment (nonces1 (signer rq)))\<rparr>, Inl e)"
    using gp poll sign put by (simp add: sendTransaction_def sendSection_def Let_def)
  have "\<exists>c'. nonces (fst (sendTransaction tm st rq)) (signer rq) = Some (Num c') \<and> c < c'"
    if "nonces st (signer rq) = Some (Num c)" for c
  proof -
    from pollNonce_counter_mono [OF poll that]
    obtain c1 where "nonces1 (signer rq) = Some (Num c1)" "c \<le> c1" by blast
    then show ?thesis by (simp add: eq)
  qed
  with eq show ?thesis by blast
qed

text \<open>
  After a restart the counters are 0 and the store still holds the manager's row with
  nonce 0; the chain's pending count is 0. \<open>putTx\<close> rejects the duplicate, and the
  counter is 1 after the failed call.
\<close>

lemmas sample_defs = request_def tm0_def tm1_def chain0_def chain1_def cfg1_def
  restarted_def managerKeys_def workerKeys_def row_def

lemma restart_gp: "resolveGasPrice tm0 (request ''0xaa'' (Some 10)) = Some 10"
  by (simp add: resolveGasPrice_def request_def)

lemma restart_poll:
  "pollNonce (contractInteractor tm0) (nonces (restarted (row ''0x01'' ''0xaa'' 0 10)))
     (signer (request ''0xaa'' (Some 10)))
   = Inr (initNonces managerKeys workerKeys, Some (Num 0))"
  by (simp add: pollNonce_def sample_defs initNonces_def)

lemma restart_sign:
  "signTransaction (selectKeyManager tm0 (signer (request ''0xaa'' (Some 10))))
     (signer (request ''0xaa'' (Some 10)))
     (sendTxToSign tm0 (request ''0xaa'' (Some 10)) 10 (Some (Num 0))) = Inr ''0xaa''"
  by (simp add: signTransaction_def selectKeyManager_def sendTxToSign_def sample_defs)

lemma restart_put:
  "putTx (createStoredTransaction (txHash tm0)
            (sendTxToSign tm0 (request ''0xaa'' (Some 10)) 10 (Some (Num 0))) ''0xaa''
            (sendMetadata (request ''0xaa'' (Some 10))))
     False (txStore (restarted (row ''0x01'' ''0xaa'' 0 10))) = Inl DuplicateNonce"
  by (simp add: putTx_def sameKey_def createStoredTransaction_def sendTxToSign_def
      sendMetadata_def nonceArgument_def numberField_def sample_defs)

theorem sendTransaction_counter_after_failed_put_witness:
  "sendTransaction tm0 (restarted (row ''0x01'' ''0xaa'' 0 10)) (request ''0xaa'' (Some 10))
     = ((restarted (row ''0x01'' ''0xaa'' 0 10))
          \<lparr>nonces := (initNonces managerKeys workerKeys)(''0xaa'' \<mapsto> Num 1)\<rparr>,
        Inl DuplicateNonce)"
  using sendTransaction_counter_after_failed_put [OF restart_gp restart_poll restart_sign restart_put]
  by (simp add: request_def initNonces_def managerKeys_def workerKeys_def)

theorem sendTransaction_failed_put_counterexample:
  "putTx (createStoredTransaction (txHash tm0)
            (sendTxToSign tm0 (request ''0xaa'' (Some 10)) 10 (Some (Num 0))) ''0xaa''
            (sendMetadata (request ''0xaa'' (Some 10))))
     False (txStore (restarted (row ''0x01'' ''0xaa'' 0 10))) = Inl DuplicateNonce
   \<and> snd (sendTransaction tm0 (restarted (row ''0x01'' ''0xaa'' 0 10)) (request ''0xaa'' (Some 10)))
       = Inl DuplicateNonce
   \<and> nonces (restarted (row ''0x01'' ''0xaa'' 0 10)) ''0xaa'' = Some (Num 0)
   \<and> nonces (fst (sendTransaction tm0 (restarted (row ''0x01'' ''0xaa'' 0 10))
                    (request ''0xaa'' (Some 10)))) ''0xaa'' = Some (Num 1)"
proof -
  have "sendTransaction tm0 (restarted (row ''0x01'' ''0xaa'' 0 10)) (request ''0xaa'' (Some 10))
     = ((restarted (row ''0x01'' ''0xaa'' 0 10))
          \<lparr>nonces := (initNonces managerKeys workerKeys)(''0xaa'' \<mapsto> increment (Some (Num 0)))\<rparr>,
        Inl DuplicateNonce)"
    using restart_gp restart_poll restart_sign restart_put
    by (simp add: sendTransaction_def sendSection_def Let_def initNonces_def managerKeys_def
        workerKeys_def request_def)
  then show ?thesis
    using restart_put by (simp add: restarted_def initNonces_def managerKeys_def workerKeys_def)
qed

subsection \<open>Signers that no key manager owns\<close>

lemma putTx_True: "putTx tx True s = Inr (tx # filter (\<lambda>r. \<not> sameKey r tx) s)"
proof (cases "list_ex (\<lambda>r. sameKey r tx) s")
  case True
  then show ?thesis by (simp add: putTx_def)
next
  case False
  then have "filter (\<lambda>r. \<not> sameKey r tx) s = s"
    by (simp add: list_ex_iff filter_id_conv)
  with False show ?thesis by (simp add: putTx_def)
qed












subsection \<open>Sending: the hash returned by the broadcast\<close>

lemma putTx_False_mem: "putTx tx False s = Inr s' \<Longrightarrow> s' = tx # s"
  by (auto simp: putTx_def split: if_splits)

lemma sendSection_stored:
  assumes "sendSection tm st rq gp = (st', Inr (signed, storedTx))"
  shows "txStore st' = storedTx # txStore st \<and> txId storedTx = txHash tm signed"
  using assms
  by (auto simp: sendSection_def Let_def createStoredTransaction_def
      split: sum.splits prod.splits dest!: putTx_False_mem)

lemma checkBroadcast_mismatch:
  "checkBroadcast tm signed storedTx = Inl HashMismatch \<longleftrightarrow>
     (\<exists>h. broadcastTransaction (contractInteractor tm) signed = Some h
          \<and> toLowerCase h \<noteq> toLowerCase (txId storedTx))"
  by (auto simp: checkBroadcast_def split: option.splits)

lemma sendSection_no_mismatch: "snd (sendSection tm st rq gp) \<noteq> Inl HashMismatch"
  by (auto simp: sendSection_def pollNonce_def signTransaction_def putTx_def Let_def
      split: sum.splits prod.splits option.splits if_splits)

text \<open>
  C6. \<open>sendTransaction\<close> fails with \<open>HashMismatch\<close> exactly when the gas price was
  resolved, the section under the mutex stored a row, the broadcast returned a hash,
  and that hash differs from the row's \<open>txId\<close> after both are lower-cased. The row's
  \<open>txId\<close> is the hash of the signed bytes; whatever the comparison yields, the row
  stays at the head of the store after the call. On success the returned hash is
  the broadcast's, and it equals the \<open>txId\<close> of a stored row up to case.
\<close>

theorem sendTransaction_hash_check:
  "(snd (sendTransaction tm st rq) = Inl HashMismatch \<longleftrightarrow>
      (\<exists>gp st' signed storedTx h.
          resolveGasPrice tm rq = Some gp
          \<and> sendSection tm st rq gp = (st', Inr (signed, storedTx))
          \<and> broadcastTransaction (contractInteractor tm) signed = Some h
          \<and> toLowerCase h \<noteq> toLowerCase (txId storedTx)))
   \<and> (\<forall>gp st' signed storedTx h.
          resolveGasPrice tm rq = Some gp
          \<and> sendSection tm st rq gp = (st', Inr (signed, storedTx))
          \<and> broadcastTransaction (contractInteractor tm) signed = Some h
        \<longrightarrow> txId storedTx = txHash tm signed
            \<and> fst (sendTransaction tm st rq) = st'
            \<and> txStore st' = storedTx # txStore st
            \<and> (toLowerCase h \<noteq> toLowerCase (txId storedTx)
                 \<longrightarrow> snd (sendTransaction tm st rq) = Inl HashMismatch)
            \<and> (toLowerCase h = toLowerCase (txId storedTx)
                 \<longrightarrow> snd (sendTransaction tm st rq)
                       = Inr \<lparr> transactionHash = h, signedTx = signed \<rparr>))
   \<and> (\<forall>d. snd (sendTransaction tm st rq) = Inr d \<longrightarrow>
          (\<exists>storedTx. storedTx \<in> set (txStore (fst (sendTransaction tm st rq)))
               \<and> toLowerCase (transactionHash d) = toLowerCase (txId storedTx)))"
proof (intro conjI allI impI)
  show "snd (sendTransaction tm st rq) = Inl HashMismatch \<longleftrightarrow>
      (\<exists>gp st' signed storedTx h.
          resolveGasPrice tm rq = Some gp
          \<and> sendSection tm st rq gp = (st', Inr (signed, storedTx))
          \<and> broadcastTransaction (contractInteractor tm) signed = Some h
          \<and> toLowerCase h \<noteq> toLowerCase (txId storedTx))"
  proof (cases "resolveGasPrice tm rq")
    case None
    then show ?thesis by (simp add: sendTransaction_def)
  next
    case (Some gp)
    obtain st' r where sec: "sendSection tm st rq gp = (st', r)" by (cases "sendSection tm st rq gp")
    show ?thesis
    proof (cases r)
      case (Inl e)
      with sec sendSection_no_mismatch [of tm st rq gp] have "e \<noteq> HashMismatch" by auto
      with Some sec Inl show ?thesis by (simp add: sendTransaction_def)
    next
      case (Inr p)
      obtain signed storedTx where p: "p = (signed, storedTx)" by (cases p)
      with Some sec Inr show ?thesis
        by (simp add: sendTransaction_def checkBroadcast_mismatch)
    qed
  qed
next
  fix gp st' signed storedTx h
  assume R: "resolveGasPrice tm rq = Some gp
          \<and> sendSection tm st rq gp = (st', Inr (signed, storedTx))
          \<and> broadcastTransaction (contractInteractor tm) signed = Some h"
  from R sendSection_stored [of tm st rq gp st' signed storedTx]
  show "txId storedTx = txHash tm signed" and "txStore st' = storedTx # txStore st" by simp_all
  from R show "fst (sendTransaction tm st rq) = st'" by (simp add: sendTransaction_def)
  {
    assume "toLowerCase h \<noteq> toLowerCase (txId storedTx)"
    with R show "snd (sendTransaction tm st rq) = Inl HashMismatch"
      by (simp add: sendTransaction_def checkBroadcast_def)
  }
  {
    assume "toLowerCase h = toLowerCase (txId storedTx)"
    with R show "snd (sendTransaction tm st rq) = Inr \<lparr> transactionHash = h, signedTx = signed \<rparr>"
      by (simp add: sendTransaction_def checkBroadcast_def)
  }
next
  fix d
  assume ok: "snd (sendTransaction tm st rq) = Inr d"
  show "\<exists>storedTx. storedTx \<in> set (txStore (fst (sendTransaction tm st rq)))
               \<and> toLowerCase (transactionHash d) = toLowerCase (txId storedTx)"
  proof (cases "resolveGasPrice tm rq")
    case None
    with ok show ?thesis by (simp add: sendTransaction_def)
  next
    case (Some gp)
    obtain st' r where sec: "sendSection tm st rq gp = (st', r)" by (cases "sendSection tm st rq gp")
    show ?thesis
    proof (cases r)
      case (Inl e)
      with Some sec ok show ?thesis by (simp add: sendTransaction_def)
    next
      case (Inr p)
      obtain signed storedTx where p: "p = (signed, storedTx)" by (cases p)
      from sec Inr p sendSection_stored [of tm st rq gp st' signed storedTx]
      have mem: "storedTx \<in> set (txStore st')" by simp
      from Some sec Inr p ok have cb: "checkBroadcast tm signed storedTx = Inr d"
        and f: "fst (sendTransaction tm st rq) = st'"
        by (simp_all add: sendTransaction_def)
      from cb have "toLowerCase (transactionHash d) = toLowerCase (txId storedTx)"
        by (auto simp: checkBroadcast_def split: option.splits if_splits)
      with mem f show ?thesis by auto
    qed
  qed
qed

text \<open>
  The manager sends with nonce 5 on a chain that answers the row's hash in upper case,
  and on a chain that answers another hash.
\<close>

lemma sample_section:
  "sendSection tm1 fresh (request ''0xaa'' (Some 10)) 10
     = (\<lparr> nonces = (initNonces managerKeys workerKeys)(''0xaa'' \<mapsto> Num 6),
          txStore = [row ''0xh0xaa'' ''0xaa'' 5 10] \<rparr>,
        Inr (''0xaa'', row ''0xh0xaa'' ''0xaa'' 5 10))"
  by (simp add: sendSection_def pollNonce_def signTransaction_def selectKeyManager_def
      sendTxToSign_def sendMetadata_def createStoredTransaction_def putTx_def nonceArgument_def
      numberField_def initNonces_def fresh_def Let_def sample_defs)

lemma sample_section_other:
  "sendSection tmOther fresh (request ''0xaa'' (Some 10)) 10
     = (\<lparr> nonces = (initNonces managerKeys workerKeys)(''0xaa'' \<mapsto> Num 6),
          txStore = [row ''0xh0xaa'' ''0xaa'' 5 10] \<rparr>,
        Inr (''0xaa'', row ''0xh0xaa'' ''0xaa'' 5 10))"
  by (simp add: sendSection_def pollNonce_def signTransaction_def selectKeyManager_def
      sendTxToSign_def sendMetadata_def createStoredTransaction_def putTx_def nonceArgument_def
      numberField_def initNonces_def fresh_def Let_def tmOther_def chainOther_def sample_defs)

theorem sendTransaction_hash_check_witness:
  "sendTransaction tm1 fresh (request ''0xaa'' (Some 10))
     = (\<lparr> nonces = (initNonces managerKeys workerKeys)(''0xaa'' \<mapsto> Num 6),
          txStore = [row ''0xh0xaa'' ''0xaa'' 5 10] \<rparr>,
        Inr \<lparr> transactionHash = ''0xH0xaa'', signedTx = ''0xaa'' \<rparr>)
   \<and> sendTransaction tmOther fresh (request ''0xaa'' (Some 10))
     = (\<lparr> nonces = (initNonces managerKeys workerKeys)(''0xaa'' \<mapsto> Num 6),
          txStore = [row ''0xh0xaa'' ''0xaa'' 5 10] \<rparr>,
        Inl HashMismatch)"
proof -
  have gp1: "resolveGasPrice tm1 (request ''0xaa'' (Some 10)) = Some 10"
    and gp2: "resolveGasPrice tmOther (request ''0xaa'' (Some 10)) = Some 10"
    by (simp_all add: resolveGasPrice_def request_def)
  have b1: "broadcastTransaction (contractInteractor tm1) ''0xaa'' = Some ''0xH0xaa''"
    by (simp add: tm1_def chain1_def)
  have b2: "broadcastTransaction (contractInteractor tmOther) ''0xaa'' = Some ''0xdead''"
    by (simp add: tmOther_def chainOther_def tm1_def chain1_def)
  have l1: "toLowerCase ''0xH0xaa'' = toLowerCase (txId (row ''0xh0xaa'' ''0xaa'' 5 10))"
    by (simp add: toLowerCase_def toLowerChar_def row_def)
  have l2: "toLowerCase ''0xdead'' \<noteq> toLowerCase (txId (row ''0xh0xaa'' ''0xaa'' 5 10))"
    by (simp add: toLowerCase_def toLowerChar_def row_def)
  from sendTransaction_hash_check [of tm1 fresh "request ''0xaa'' (Some 10)"]
    gp1 sample_section b1 l1
  have ok: "fst (sendTransaction tm1 fresh (request ''0xaa'' (Some 10)))
        = \<lparr> nonces = (initNonces managerKeys workerKeys)(''0xaa'' \<mapsto> Num 6),
          txStore = [row ''0xh0xaa'' ''0xaa'' 5 10] \<rparr>
     \<and> snd (sendTransaction tm1 fresh (request ''0xaa'' (Some 10)))
        = Inr \<lparr> transactionHash = ''0xH0xaa'', signedTx = ''0xaa'' \<rparr>"
    by blast
  from sendTransaction_hash_check [of tmOther fresh "request ''0xaa'' (Some 10)"]
    gp2 sample_section_other b2 l2
  have bad: "fst (sendTransaction tmOther fresh (request ''0xaa'' (Some 10)))
        = \<lparr> nonces = (initNonces managerKeys workerKeys)(''0xaa'' \<mapsto> Num 6),
          txStore = [row ''0xh0xaa'' ''0xaa'' 5 10] \<rparr>
     \<and> snd (sendTransaction tmOther fresh (request ''0xaa'' (Some 10))) = Inl HashMismatch"
    by metis
  from ok bad show ?thesis by (simp add: prod_eq_iff)
qed

subsection \<open>Resending\<close>

lemma numberField_integer: "0 \<le> n \<Longrightarrow> numberField tm (of_int n) = n"
  by (simp add: numberField_def)

lemma resendTransaction_store:
  assumes "signTransaction (selectKeyManager tm (from_addr tx)) (from_addr tx)
             (resendTxToSign tm tx g) = Inr signed"
  shows "fst (resendTransaction tm s tx cb g capped)
         = createStoredTransaction (txHash tm) (resendTxToSign tm tx g) signed (attemptMetadata tx cb)
           # filter (\<lambda>r. \<not> sameKey r tx) s"
  using assms
  by (simp add: resendTransaction_def updateTransactionWithAttempt_def Let_def putTx_True
      sameKey_def createStoredTransaction_def attemptMetadata_def resendTxToSign_def
      split: option.splits)

text \<open>
  C7, with the gas price as the transaction can hold it. The transaction that
  \<open>resendTransaction\<close> builds has the \<open>to\<close>, gas limit, data and nonce of the stored
  row and no value: the row's value is not carried over. Its gas price is the
  supplied new gas price when that is a non-negative integer; the transaction holds
  an integer, so a price with a fraction is not held as supplied. Once the
  transaction is signed, the replacement row has one attempt more,
  \<open>boostBlockNumber\<close> set to the current block, a \<open>txId\<close> that is the hash of the new
  signed bytes, the gas price of the transaction, and the old row's \<open>from\<close>,
  \<open>serverAction\<close>, \<open>creationBlockNumber\<close> and \<open>minedBlockNumber\<close>; it is written by
  \<open>putTx\<close> with \<open>replace\<close> true, which leaves it in the place of the rows with the
  old row's \<open>(from, nonce)\<close>.
\<close>

theorem resendTransaction_rebuilds:
  "tx_to (resendTxToSign tm tx g) = to_addr tx
   \<and> tx_gasLimit (resendTxToSign tm tx g) = gas tx
   \<and> tx_data (resendTxToSign tm tx g) = data tx
   \<and> tx_nonce (resendTxToSign tm tx g) = nonce tx
   \<and> tx_value (resendTxToSign tm tx g) = None
   \<and> (\<forall>n. 0 \<le> n \<and> g = of_int n \<longrightarrow> tx_gasPrice (resendTxToSign tm tx g) = n)
   \<and> (\<forall>signed.
        signTransaction (selectKeyManager tm (from_addr tx)) (from_addr tx) (resendTxToSign tm tx g)
          = Inr signed
        \<longrightarrow> (\<exists>storedTx.
              putTx storedTx True s = Inr (fst (resendTransaction tm s tx cb g capped))
              \<and> fst (resendTransaction tm s tx cb g capped)
                  = storedTx # filter (\<lambda>r. \<not> sameKey r tx) s
              \<and> txId storedTx = txHash tm signed
              \<and> attempts storedTx = attempts tx + 1
              \<and> boostBlockNumber storedTx = Some cb
              \<and> from_addr storedTx = from_addr tx
              \<and> serverAction storedTx = serverAction tx
              \<and> creationBlockNumber storedTx = creationBlockNumber tx
              \<and> minedBlockNumber storedTx = minedBlockNumber tx
              \<and> to_addr storedTx = to_addr tx
              \<and> gas storedTx = gas tx
              \<and> data storedTx = data tx
              \<and> nonce storedTx = nonce tx
              \<and> gasPrice storedTx = tx_gasPrice (resendTxToSign tm tx g)
              \<and> (\<forall>n. 0 \<le> n \<and> g = of_int n \<longrightarrow> gasPrice storedTx = n)
              \<and> stored_value storedTx = None))"
proof (intro conjI allI impI)
  fix n :: int
  assume "0 \<le> n \<and> g = of_int n"
  then show "tx_gasPrice (resendTxToSign tm tx g) = n"
    by (simp add: resendTxToSign_def numberField_integer)
next
  fix signed
  assume sg: "signTransaction (selectKeyManager tm (from_addr tx)) (from_addr tx)
                (resendTxToSign tm tx g) = Inr signed"
  define storedTx where
    "storedTx = createStoredTransaction (txHash tm) (resendTxToSign tm tx g) signed (attemptMetadata tx cb)"
  have key: "sameKey r storedTx = sameKey r tx" for r
    by (simp add: storedTx_def sameKey_def createStoredTransaction_def attemptMetadata_def
        resendTxToSign_def)
  have st: "fst (resendTransaction tm s tx cb g capped) = storedTx # filter (\<lambda>r. \<not> sameKey r tx) s"
    using resendTransaction_store [OF sg] by (simp add: storedTx_def)
  have put: "putTx storedTx True s = Inr (fst (resendTransaction tm s tx cb g capped))"
    by (simp add: putTx_True st key)
  have price: "\<forall>n. 0 \<le> n \<and> g = of_int n \<longrightarrow> gasPrice storedTx = n"
    by (simp add: storedTx_def createStoredTransaction_def resendTxToSign_def numberField_integer)
  from st put price show "\<exists>storedTx.
              putTx storedTx True s = Inr (fst (resendTransaction tm s tx cb g capped))
              \<and> fst (resendTransaction tm s tx cb g capped)
                  = storedTx # filter (\<lambda>r. \<not> sameKey r tx) s
              \<and> txId storedTx = txHash tm signed
              \<and> attempts storedTx = attempts tx + 1
              \<and> boostBlockNumber storedTx = Some cb
              \<and> from_addr storedTx = from_addr tx
              \<and> serverAction storedTx = serverAction tx
              \<and> creationBlockNumber storedTx = creationBlockNumber tx
              \<and> minedBlockNumber storedTx = minedBlockNumber tx
              \<and> to_addr storedTx = to_addr tx
              \<and> gas storedTx = gas tx
              \<and> data storedTx = data tx
              \<and> nonce storedTx = nonce tx
              \<and> gasPrice storedTx = tx_gasPrice (resendTxToSign tm tx g)
              \<and> (\<forall>n. 0 \<le> n \<and> g = of_int n \<longrightarrow> gasPrice storedTx = n)
              \<and> stored_value storedTx = None"
    by (intro exI [of _ storedTx])
      (simp add: storedTx_def createStoredTransaction_def attemptMetadata_def resendTxToSign_def)
qed (simp_all add: resendTxToSign_def)

text \<open>
  The manager's row with nonce 5, price 10 and a value of \<open>0x64\<close> is resent at block
  110 with price 15; the store also holds its row with nonce 6.
\<close>

theorem resendTransaction_rebuilds_witness:
  "map txId (fst (resendTransaction tm1
       [(row ''0x01'' ''0xaa'' 5 10)\<lparr>stored_value := Some ''0x64''\<rparr>, row ''0x02'' ''0xaa'' 6 10]
       ((row ''0x01'' ''0xaa'' 5 10)\<lparr>stored_value := Some ''0x64''\<rparr>) 110 15 False))
     = [''0xh0xaa'', ''0x02'']
   \<and> map attempts (fst (resendTransaction tm1
       [(row ''0x01'' ''0xaa'' 5 10)\<lparr>stored_value := Some ''0x64''\<rparr>, row ''0x02'' ''0xaa'' 6 10]
       ((row ''0x01'' ''0xaa'' 5 10)\<lparr>stored_value := Some ''0x64''\<rparr>) 110 15 False))
     = [2, 1]
   \<and> map boostBlockNumber (fst (resendTransaction tm1
       [(row ''0x01'' ''0xaa'' 5 10)\<lparr>stored_value := Some ''0x64''\<rparr>, row ''0x02'' ''0xaa'' 6 10]
       ((row ''0x01'' ''0xaa'' 5 10)\<lparr>stored_value := Some ''0x64''\<rparr>) 110 15 False))
     = [Some 110, None]
   \<and> map gasPrice (fst (resendTransaction tm1
       [(row ''0x01'' ''0xaa'' 5 10)\<lparr>stored_value := Some ''0x64''\<rparr>, row ''0x02'' ''0xaa'' 6 10]
       ((row ''0x01'' ''0xaa'' 5 10)\<lparr>stored_value := Some ''0x64''\<rparr>) 110 15 False))
     = [15, 10]
   \<and> map stored_value (fst (resendTransaction tm1
       [(row ''0x01'' ''0xaa'' 5 10)\<lparr>stored_value := Some ''0x64''\<rparr>, row ''0x02'' ''0xaa'' 6 10]
       ((row ''0x01'' ''0xaa'' 5 10)\<lparr>stored_value := Some ''0x64''\<rparr>) 110 15 False))
     = [None, Some ''0x'']"
proof -
  define tx where "tx = (row ''0x01'' ''0xaa'' 5 10)\<lparr>stored_value := Some ''0x64''\<rparr>"
  define s where "s = [tx, row ''0x02'' ''0xaa'' 6 10]"
  have sg: "signTransaction (selectKeyManager tm1 (from_addr tx)) (from_addr tx)
              (resendTxToSign tm1 tx 15) = Inr ''0xaa''"
    by (simp add: signTransaction_def selectKeyManager_def resendTxToSign_def tx_def sample_defs)
  have flt: "filter (\<lambda>r. \<not> sameKey r tx) s = [row ''0x02'' ''0xaa'' 6 10]"
    by (simp add: s_def tx_def sameKey_def row_def)
  have int15: "0 \<le> (15::int) \<and> (15::rat) = of_int 15" by simp
  from resendTransaction_rebuilds [of tm1 tx 15 s 110 False] sg int15
  obtain storedTx where
    "fst (resendTransaction tm1 s tx 110 15 False) = storedTx # filter (\<lambda>r. \<not> sameKey r tx) s"
    "txId storedTx = txHash tm1 ''0xaa''" "attempts storedTx = attempts tx + 1"
    "boostBlockNumber storedTx = Some 110" "gasPrice storedTx = 15" "stored_value storedTx = None"
    by blast
  then have "map txId (fst (resendTransaction tm1 s tx 110 15 False)) = [''0xh0xaa'', ''0x02'']"
    "map attempts (fst (resendTransaction tm1 s tx 110 15 False)) = [2, 1]"
    "map boostBlockNumber (fst (resendTransaction tm1 s tx 110 15 False)) = [Some 110, None]"
    "map gasPrice (fst (resendTransaction tm1 s tx 110 15 False)) = [15, 10]"
    "map stored_value (fst (resendTransaction tm1 s tx 110 15 False)) = [None, Some ''0x'']"
    by (simp_all add: flt) (simp_all add: tx_def row_def tm1_def)
  then show ?thesis by (simp add: s_def tx_def)
qed

text \<open>
  For the old price 3 and factor \<open>3/2\<close>, \<open>_resolveNewGasPrice\<close> supplies \<open>9/2\<close>; the
  transaction built for it holds an integer, here 4.
\<close>

theorem resendTransaction_fraction_counterexample:
  "fst (resolveNewGasPrice (tm_config tm1) 3) = 9 / 2
   \<and> tx_gasPrice (resendTxToSign tm1 (row ''0x01'' ''0xaa'' 5 3) (9 / 2)) = 4
   \<and> (of_int (tx_gasPrice (resendTxToSign tm1 (row ''0x01'' ''0xaa'' 5 3) (9 / 2))) :: rat)
       \<noteq> 9 / 2"
proof -
  have a: "fst (resolveNewGasPrice (tm_config tm1) 3) = 9 / 2" by code_simp
  have b: "numberField tm1 (9 / 2) = 4" by code_simp
  show ?thesis by (simp add: a b resendTxToSign_def)
qed

subsection \<open>Removing confirmed transactions\<close>

lemma removeConfirmedTransactions_loop:
  "removeConfirmedTransactions tm bn s = removeConfirmedLoop tm bn (getAll s) s"
  by (simp add: removeConfirmedTransactions_def Let_def)

lemma removeConfirmedLoop_append:
  "removeConfirmedLoop tm bn (pre @ txs) s
     = (case removeConfirmedLoop tm bn pre s of
          (s1, Inl e) \<Rightarrow> (s1, Inl e)
        | (s1, Inr u) \<Rightarrow> removeConfirmedLoop tm bn txs s1)"
proof (induction pre arbitrary: s)
  case Nil
  then show ?case by simp
next
  case (Cons tx pre)
  show ?case
    by (simp add: Cons.IH Let_def split: option.splits sum.splits)
qed

lemma removeConfirmedTransactions_at:
  assumes "getAll s = pre @ tx # txs"
    and "removeConfirmedLoop tm bn pre s = (s1, Inr ())"
  shows "removeConfirmedTransactions tm bn s = removeConfirmedLoop tm bn (tx # txs) s1"
  using assms by (simp add: removeConfirmedTransactions_loop removeConfirmedLoop_append)

lemma putTx_True_keeps_keys:
  "\<forall>r\<in>set s. \<exists>r'\<in>set (tx # filter (\<lambda>r. \<not> sameKey r tx) s). sameKey r' r"
proof
  fix r assume r: "r \<in> set s"
  show "\<exists>r'\<in>set (tx # filter (\<lambda>r. \<not> sameKey r tx) s). sameKey r' r"
  proof (cases "sameKey r tx")
    case True
    then have "sameKey tx r" by (auto simp: sameKey_def)
    then show ?thesis by auto
  next
    case False
    with r have "r \<in> set (tx # filter (\<lambda>r. \<not> sameKey r tx) s)" by simp
    moreover have "sameKey r r" by (simp add: sameKey_def)
    ultimately show ?thesis by blast
  qed
qed

text \<open>
  C8. \<open>removeConfirmedTransactions\<close> walks the rows that \<open>getAll\<close> returned. Take a
  row of that list which is to be rechecked, reached with the store \<open>s1\<close> after the
  rows before it. When its receipt is \<open>null\<close> or has no block number, the store is
  left as it is and the walk goes on with the next row. When the receipt's block
  number differs from the row's \<open>minedBlockNumber\<close> and the confirmations are fewer
  than \<open>confirmationsNeeded\<close>, the walk goes on with the store that \<open>putTx\<close> with
  \<open>replace\<close> true returns for the row with the new \<open>minedBlockNumber\<close>: it holds that
  row and every row with another \<open>(from, nonce)\<close>, so that no \<open>(from, nonce)\<close>
  disappears. When the confirmations reach \<open>confirmationsNeeded\<close>, the walk goes on
  with the store after \<open>removeTxsUntilNonce (receipt.from, receipt.nonce)\<close>.
\<close>

theorem removeConfirmed_row:
  assumes rows: "getAll s = pre @ tx # txs"
    and before: "removeConfirmedLoop tm bn pre s = (s1, Inr ())"
    and rc: "shouldRecheck (tm_config tm) bn tx"
  shows
  "(getTransaction (contractInteractor tm) (txId tx) = Some None
      \<or> (\<exists>rc. getTransaction (contractInteractor tm) (txId tx) = Some (Some rc)
               \<and> rc_blockNumber rc = None)
     \<longrightarrow> removeConfirmedTransactions tm bn s = removeConfirmedLoop tm bn txs s1)
   \<and> (\<forall>rc rb.
         getTransaction (contractInteractor tm) (txId tx) = Some (Some rc)
         \<and> rc_blockNumber rc = Some rb
         \<and> Some rb \<noteq> minedBlockNumber tx
         \<and> bn - rb < confirmationsNeeded (tm_config tm)
        \<longrightarrow> (\<exists>s'. putTx (tx\<lparr>minedBlockNumber := Some rb\<rparr>) True s1 = Inr s'
               \<and> removeConfirmedTransactions tm bn s = removeConfirmedLoop tm bn txs s'
               \<and> set s' = insert (tx\<lparr>minedBlockNumber := Some rb\<rparr>)
                                  {r \<in> set s1. \<not> sameKey r tx}
               \<and> (\<forall>r\<in>set s1. \<exists>r'\<in>set s'. sameKey r' r)))
   \<and> (\<forall>rc rb.
         getTransaction (contractInteractor tm) (txId tx) = Some (Some rc)
         \<and> rc_blockNumber rc = Some rb
         \<and> bn - rb \<ge> confirmationsNeeded (tm_config tm)
        \<longrightarrow> removeConfirmedTransactions tm bn s
              = removeConfirmedLoop tm bn txs
                  (removeTxsUntilNonce (rc_from rc) (rc_nonce rc) s1))"
proof (intro conjI allI impI)
  note at = removeConfirmedTransactions_at [OF rows before]
  {
    assume "getTransaction (contractInteractor tm) (txId tx) = Some None
      \<or> (\<exists>rc. getTransaction (contractInteractor tm) (txId tx) = Some (Some rc)
               \<and> rc_blockNumber rc = None)"
    with rc at show "removeConfirmedTransactions tm bn s = removeConfirmedLoop tm bn txs s1"
      by auto
  }
  {
    fix rc' rb
    assume h: "getTransaction (contractInteractor tm) (txId tx) = Some (Some rc')
         \<and> rc_blockNumber rc' = Some rb
         \<and> Some rb \<noteq> minedBlockNumber tx
         \<and> bn - rb < confirmationsNeeded (tm_config tm)"
    define tx' where "tx' = tx\<lparr>minedBlockNumber := Some rb\<rparr>"
    define s' where "s' = tx' # filter (\<lambda>r. \<not> sameKey r tx) s1"
    have key: "sameKey r tx' = sameKey r tx" for r by (simp add: tx'_def sameKey_def)
    have put: "putTx tx' True s1 = Inr s'" by (simp add: putTx_True s'_def key)
    have loop: "removeConfirmedTransactions tm bn s = removeConfirmedLoop tm bn txs s'"
      using rc h put at by (simp add: updateTransactionWithMinedBlock_def tx'_def)
    have set: "set s' = insert tx' {r \<in> set s1. \<not> sameKey r tx}" by (auto simp: s'_def)
    have keys: "\<forall>r\<in>set s1. \<exists>r'\<in>set s'. sameKey r' r"
      using putTx_True_keeps_keys [of s1 tx'] by (simp add: s'_def key)
    from put loop set keys
    show "\<exists>s'. putTx (tx\<lparr>minedBlockNumber := Some rb\<rparr>) True s1 = Inr s'
               \<and> removeConfirmedTransactions tm bn s = removeConfirmedLoop tm bn txs s'
               \<and> set s' = insert (tx\<lparr>minedBlockNumber := Some rb\<rparr>)
                                  {r \<in> set s1. \<not> sameKey r tx}
               \<and> (\<forall>r\<in>set s1. \<exists>r'\<in>set s'. sameKey r' r)"
      unfolding tx'_def by blast
  }
  {
    fix rc' rb
    assume "getTransaction (contractInteractor tm) (txId tx) = Some (Some rc')
         \<and> rc_blockNumber rc' = Some rb
         \<and> bn - rb \<ge> confirmationsNeeded (tm_config tm)"
    with rc at show "removeConfirmedTransactions tm bn s
              = removeConfirmedLoop tm bn txs
                  (removeTxsUntilNonce (rc_from rc') (rc_nonce rc') s1)"
      by simp
  }
qed

text \<open>
  At block 112 with 12 confirmations needed: a store with only the row that has no
  receipt is left as it is; with the row mined in block 105 added, that row gets its
  \<open>minedBlockNumber\<close> and nothing is removed; with the third row, whose receipt is in
  block 100 with nonce 7, the signer's rows up to nonce 7 are removed.
\<close>

lemma receipt_samples:
  "shouldRecheck (tm_config tmReceipts) 112 (row i ''0xaa'' n g)"
  "getTransaction (contractInteractor tmReceipts) (txId (row ''0x01'' ''0xaa'' 5 10)) = Some None"
  "getTransaction (contractInteractor tmReceipts) (txId (row ''0x02'' ''0xaa'' 6 15))
     = Some (Some \<lparr> rc_blockNumber = Some 105, rc_from = ''0xaa'', rc_nonce = 6 \<rparr>)"
  "getTransaction (contractInteractor tmReceipts) (txId (row ''0x03'' ''0xaa'' 7 30))
     = Some (Some \<lparr> rc_blockNumber = Some 100, rc_from = ''0xaa'', rc_nonce = 7 \<rparr>)"
  "confirmationsNeeded (tm_config tmReceipts) = 12"
  "Some 105 \<noteq> minedBlockNumber (row ''0x02'' ''0xaa'' 6 15)"
  by (simp_all add: shouldRecheck_def tmReceipts_def chainReceipts_def tm1_def cfg1_def row_def)

lemma receipt_rows:
  "getAll [row ''0x01'' ''0xaa'' 5 10] = [] @ row ''0x01'' ''0xaa'' 5 10 # []"
  "getAll [row ''0x01'' ''0xaa'' 5 10, row ''0x02'' ''0xaa'' 6 15]
     = [row ''0x01'' ''0xaa'' 5 10] @ row ''0x02'' ''0xaa'' 6 15 # []"
  "getAll threeRows
     = [row ''0x01'' ''0xaa'' 5 10, row ''0x02'' ''0xaa'' 6 15] @ row ''0x03'' ''0xaa'' 7 30 # []"
  by (simp_all add: getAll_def threeRows_def row_def)

lemma receipt_before:
  "removeConfirmedLoop tmReceipts 112 [] s = (s, Inr ())"
  "removeConfirmedLoop tmReceipts 112 [row ''0x01'' ''0xaa'' 5 10] s = (s, Inr ())"
  "removeConfirmedLoop tmReceipts 112 [row ''0x01'' ''0xaa'' 5 10, row ''0x02'' ''0xaa'' 6 15]
     threeRows
     = ([(row ''0x02'' ''0xaa'' 6 15)\<lparr>minedBlockNumber := Some 105\<rparr>,
         row ''0x01'' ''0xaa'' 5 10, row ''0x03'' ''0xaa'' 7 30], Inr ())"
proof -
  show "removeConfirmedLoop tmReceipts 112 [] s = (s, Inr ())" by simp
  show skip: "removeConfirmedLoop tmReceipts 112 [row ''0x01'' ''0xaa'' 5 10] s = (s, Inr ())" for s
    by (simp add: receipt_samples)
  have put: "putTx ((row ''0x02'' ''0xaa'' 6 15)\<lparr>minedBlockNumber := Some 105\<rparr>) True threeRows
     = Inr [(row ''0x02'' ''0xaa'' 6 15)\<lparr>minedBlockNumber := Some 105\<rparr>,
            row ''0x01'' ''0xaa'' 5 10, row ''0x03'' ''0xaa'' 7 30]"
    by (simp add: putTx_def sameKey_def threeRows_def row_def)
  show "removeConfirmedLoop tmReceipts 112 [row ''0x01'' ''0xaa'' 5 10, row ''0x02'' ''0xaa'' 6 15]
     threeRows
     = ([(row ''0x02'' ''0xaa'' 6 15)\<lparr>minedBlockNumber := Some 105\<rparr>,
         row ''0x01'' ''0xaa'' 5 10, row ''0x03'' ''0xaa'' 7 30], Inr ())"
    by (simp add: receipt_samples updateTransactionWithMinedBlock_def put)
qed

theorem removeConfirmed_row_witness:
  "removeConfirmedTransactions tmReceipts 112 [row ''0x01'' ''0xaa'' 5 10]
     = ([row ''0x01'' ''0xaa'' 5 10], Inr ())
   \<and> removeConfirmedTransactions tmReceipts 112
       [row ''0x01'' ''0xaa'' 5 10, row ''0x02'' ''0xaa'' 6 15]
     = ([(row ''0x02'' ''0xaa'' 6 15)\<lparr>minedBlockNumber := Some 105\<rparr>,
         row ''0x01'' ''0xaa'' 5 10], Inr ())
   \<and> removeConfirmedTransactions tmReceipts 112 threeRows = ([], Inr ())"
proof -
  have w1: "removeConfirmedTransactions tmReceipts 112 [row ''0x01'' ''0xaa'' 5 10]
     = ([row ''0x01'' ''0xaa'' 5 10], Inr ())"
    using removeConfirmed_row [OF receipt_rows(1) receipt_before(1) receipt_samples(1)]
      receipt_samples(2)
    by simp
  have p2: "putTx ((row ''0x02'' ''0xaa'' 6 15)\<lparr>minedBlockNumber := Some 105\<rparr>) True
              [row ''0x01'' ''0xaa'' 5 10, row ''0x02'' ''0xaa'' 6 15]
              = Inr [(row ''0x02'' ''0xaa'' 6 15)\<lparr>minedBlockNumber := Some 105\<rparr>,
                     row ''0x01'' ''0xaa'' 5 10]"
    by (simp add: putTx_def sameKey_def row_def)
  have w2: "removeConfirmedTransactions tmReceipts 112
       [row ''0x01'' ''0xaa'' 5 10, row ''0x02'' ''0xaa'' 6 15]
     = ([(row ''0x02'' ''0xaa'' 6 15)\<lparr>minedBlockNumber := Some 105\<rparr>,
         row ''0x01'' ''0xaa'' 5 10], Inr ())"
    using removeConfirmed_row [OF receipt_rows(2) receipt_before(2) receipt_samples(1)]
      receipt_samples(3,5,6) p2
    by auto
  have r3: "removeTxsUntilNonce ''0xaa'' 7
              [(row ''0x02'' ''0xaa'' 6 15)\<lparr>minedBlockNumber := Some 105\<rparr>,
               row ''0x01'' ''0xaa'' 5 10, row ''0x03'' ''0xaa'' 7 30] = []"
    by (simp add: removeTxsUntilNonce_def row_def)
  have w3: "removeConfirmedTransactions tmReceipts 112 threeRows = ([], Inr ())"
    using removeConfirmed_row [OF receipt_rows(3) receipt_before(3) receipt_samples(1)]
      receipt_samples(4,5) r3
    by auto
  from w1 w2 w3 show ?thesis by simp
qed

subsection \<open>Boosting\<close>

lemma boostLoop_dom:
  "boostLoop tm cb g capped txs s m = (s', Inr m') \<Longrightarrow> dom m' = dom m \<union> txId ` set txs"
proof (induction txs arbitrary: s m)
  case Nil
  then show ?case by simp
next
  case (Cons tx txs)
  obtain s1 r where rs: "resendTransaction tm s tx cb g capped = (s1, r)"
    by (cases "resendTransaction tm s tx cb g capped")
  show ?case
  proof (cases r)
    case (Inl e)
    with Cons.prems rs show ?thesis by simp
  next
    case (Inr d)
    with Cons.prems rs
    have "boostLoop tm cb g capped txs s1 (m(txId tx \<mapsto> d)) = (s', Inr m')" by simp
    from Cons.IH [OF this] show ?thesis by auto
  qed
qed

lemma boostLoop_nonempty:
  assumes "txs \<noteq> []"
  shows "boostLoop tm cb g capped txs s Map.empty \<noteq> (s', Inr Map.empty)"
proof
  assume "boostLoop tm cb g capped txs s Map.empty = (s', Inr Map.empty)"
  from boostLoop_dom [OF this] assms show False by (cases txs) auto
qed

lemma boost_proceeds:
  assumes "getAllBySigner a s = oldest # rest"
    and "getTransactionCount (contractInteractor tm) a Latest = Some n"
    and "\<not> nonce oldest < n"
    and "\<not> cb - lastSentAtBlockHeight oldest < pendingTransactionTimeoutBlocks (tm_config tm)"
  shows "boostUnderpricedPendingTransactionsForSigner tm s a cb
         = boostLoop tm cb (fst (resolveNewGasPrice (tm_config tm) (gasPrice oldest)))
             (snd (resolveNewGasPrice (tm_config tm) (gasPrice oldest)))
             (underpricedTransactions (tm_config tm) (oldest # rest) oldest) s Map.empty"
  using assms
  by (simp add: boostUnderpricedPendingTransactionsForSigner_def split: prod.splits)

lemma resolveNewGasPrice_raises:
  assumes "1 < retryGasPriceFactor cfg" and "0 < old" and "old < maxGasPrice cfg"
  shows "of_int old < fst (resolveNewGasPrice cfg old)"
proof -
  have "(0::rat) < of_int old" using assms(2) by simp
  moreover have "1 < toNumber (retryGasPriceFactorConfigured cfg)"
    using assms(1) by (simp add: retryGasPriceFactor_def)
  ultimately have "of_int old < toNumber (of_int old * toNumber (retryGasPriceFactorConfigured cfg))"
    by (rule toNumber_product_raises)
  moreover have "(of_int old :: rat) < of_int (maxGasPrice cfg)" using assms(3) by simp
  ultimately show ?thesis
    by (simp add: resolveNewGasPrice_def retryGasPriceFactor_def Let_def)
qed

text \<open>
  C3, with the condition under which it holds. When the three guards pass (the
  signer has rows, the oldest row's nonce is not below the latest transaction count,
  and the current block is at least \<open>pendingTransactionTimeoutBlocks\<close> past the oldest
  row's reference block), and moreover the factor exceeds 1 and the oldest row's gas
  price is positive and below \<open>maxGasPrice\<close>, the oldest row is the first of the rows
  that are resent, and a mapping that the call returns has the oldest row's \<open>txId\<close>
  as a key.
\<close>

theorem boost_includes_oldest:
  assumes rows: "getAllBySigner a s = oldest # rest"
    and cnt: "getTransactionCount (contractInteractor tm) a Latest = Some n"
    and mined: "\<not> nonce oldest < n"
    and stale: "cb - lastSentAtBlockHeight oldest \<ge> pendingTransactionTimeoutBlocks (tm_config tm)"
    and factor: "1 < retryGasPriceFactor (tm_config tm)"
    and pos: "0 < gasPrice oldest"
    and below: "gasPrice oldest < of_int (maxGasPrice (tm_config tm))"
  shows "(\<exists>more. underpricedTransactions (tm_config tm) (oldest # rest) oldest = oldest # more)
       \<and> boostUnderpricedPendingTransactionsForSigner tm s a cb
           = boostLoop tm cb (fst (resolveNewGasPrice (tm_config tm) (gasPrice oldest)))
               (snd (resolveNewGasPrice (tm_config tm) (gasPrice oldest)))
               (underpricedTransactions (tm_config tm) (oldest # rest) oldest) s Map.empty
       \<and> (\<forall>s' m. boostUnderpricedPendingTransactionsForSigner tm s a cb = (s', Inr m)
              \<longrightarrow> txId oldest \<in> dom m)"
proof -
  have up: "of_int (gasPrice oldest) < fst (resolveNewGasPrice (tm_config tm) (gasPrice oldest))"
    using factor pos below by (intro resolveNewGasPrice_raises) simp_all
  then have first: "\<exists>more. underpricedTransactions (tm_config tm) (oldest # rest) oldest = oldest # more"
    by (simp add: underpricedTransactions_def)
  from stale have "\<not> cb - lastSentAtBlockHeight oldest < pendingTransactionTimeoutBlocks (tm_config tm)"
    by simp
  note run = boost_proceeds [OF rows cnt mined this]
  have "txId oldest \<in> dom m"
    if "boostUnderpricedPendingTransactionsForSigner tm s a cb = (s', Inr m)" for s' m
  proof -
    from that run
    have "dom m = dom (Map.empty :: boosted)
            \<union> txId ` set (underpricedTransactions (tm_config tm) (oldest # rest) oldest)"
      by (intro boostLoop_dom) simp
    with first show ?thesis by auto
  qed
  with first run show ?thesis by blast
qed

text \<open>
  C5, with the fourth case. The call returns the empty mapping and the store as it
  was exactly when the signer has no rows, or the latest transaction count was
  obtained and the oldest row's nonce is strictly below it, or the current block
  minus the oldest row's reference block (\<open>boostBlockNumber\<close> if set, else
  \<open>creationBlockNumber\<close>) is strictly below \<open>pendingTransactionTimeoutBlocks\<close>, or no
  row is priced below the new gas price. When the difference is equal to the
  timeout, or larger, and the other guards pass, the call resolves the new price and
  resends the underpriced rows.
\<close>

theorem boost_empty_cases:
  "(boostUnderpricedPendingTransactionsForSigner tm s a cb = (s, Inr Map.empty) \<longleftrightarrow>
      getAllBySigner a s = []
      \<or> (\<exists>oldest rest n.
            getAllBySigner a s = oldest # rest
            \<and> getTransactionCount (contractInteractor tm) a Latest = Some n
            \<and> (nonce oldest < n
                \<or> cb - lastSentAtBlockHeight oldest < pendingTransactionTimeoutBlocks (tm_config tm)
                \<or> underpricedTransactions (tm_config tm) (oldest # rest) oldest = [])))
   \<and> (\<forall>oldest rest n.
         getAllBySigner a s = oldest # rest
         \<and> getTransactionCount (contractInteractor tm) a Latest = Some n
         \<and> \<not> nonce oldest < n
         \<and> cb - lastSentAtBlockHeight oldest \<ge> pendingTransactionTimeoutBlocks (tm_config tm)
        \<longrightarrow> boostUnderpricedPendingTransactionsForSigner tm s a cb
             = boostLoop tm cb (fst (resolveNewGasPrice (tm_config tm) (gasPrice oldest)))
                 (snd (resolveNewGasPrice (tm_config tm) (gasPrice oldest)))
                 (underpricedTransactions (tm_config tm) (oldest # rest) oldest) s Map.empty)"
proof (intro conjI allI impI)
  show "boostUnderpricedPendingTransactionsForSigner tm s a cb = (s, Inr Map.empty) \<longleftrightarrow>
      getAllBySigner a s = []
      \<or> (\<exists>oldest rest n.
            getAllBySigner a s = oldest # rest
            \<and> getTransactionCount (contractInteractor tm) a Latest = Some n
            \<and> (nonce oldest < n
                \<or> cb - lastSentAtBlockHeight oldest < pendingTransactionTimeoutBlocks (tm_config tm)
                \<or> underpricedTransactions (tm_config tm) (oldest # rest) oldest = []))"
  proof (cases "getAllBySigner a s")
    case Nil
    then show ?thesis by (simp add: boostUnderpricedPendingTransactionsForSigner_def)
  next
    case (Cons oldest rest)
    show ?thesis
    proof (cases "getTransactionCount (contractInteractor tm) a Latest")
      case None
      with Cons show ?thesis by (simp add: boostUnderpricedPendingTransactionsForSigner_def)
    next
      case (Some n)
      show ?thesis
      proof (cases "nonce oldest < n
                \<or> cb - lastSentAtBlockHeight oldest < pendingTransactionTimeoutBlocks (tm_config tm)")
        case True
        with Cons Some show ?thesis
          by (auto simp: boostUnderpricedPendingTransactionsForSigner_def)
      next
        case False
        then have g1: "\<not> nonce oldest < n"
          and g2: "\<not> cb - lastSentAtBlockHeight oldest < pendingTransactionTimeoutBlocks (tm_config tm)"
          by simp_all
        note run = boost_proceeds [OF Cons Some g1 g2]
        show ?thesis
        proof (cases "underpricedTransactions (tm_config tm) (oldest # rest) oldest = []")
          case True
          with run Cons Some show ?thesis by simp
        next
          case ne: False
          from boostLoop_nonempty [OF ne] run
          have "boostUnderpricedPendingTransactionsForSigner tm s a cb \<noteq> (s, Inr Map.empty)"
            by simp
          with Cons Some False ne show ?thesis by simp
        qed
      qed
    qed
  qed
next
  fix oldest rest n
  assume "getAllBySigner a s = oldest # rest
         \<and> getTransactionCount (contractInteractor tm) a Latest = Some n
         \<and> \<not> nonce oldest < n
         \<and> cb - lastSentAtBlockHeight oldest \<ge> pendingTransactionTimeoutBlocks (tm_config tm)"
  then have h1: "getAllBySigner a s = oldest # rest"
    and h2: "getTransactionCount (contractInteractor tm) a Latest = Some n"
    and h3: "\<not> nonce oldest < n"
    and h4: "\<not> cb - lastSentAtBlockHeight oldest < pendingTransactionTimeoutBlocks (tm_config tm)"
    by auto
  show "boostUnderpricedPendingTransactionsForSigner tm s a cb
             = boostLoop tm cb (fst (resolveNewGasPrice (tm_config tm) (gasPrice oldest)))
                 (snd (resolveNewGasPrice (tm_config tm) (gasPrice oldest)))
                 (underpricedTransactions (tm_config tm) (oldest # rest) oldest) s Map.empty"
    by (rule boost_proceeds [OF h1 h2 h3 h4])
qed

text \<open>
  Sample runs: the manager's rows with nonces 5, 6, 7 and prices 10, 15, 30, created
  at block 100, with a timeout of 10 blocks, factor \<open>3/2\<close> and cap 100.
\<close>

lemmas run_defs = resendTransaction_def resendTxToSign_def signTransaction_def
  selectKeyManager_def updateTransactionWithAttempt_def attemptMetadata_def
  createStoredTransaction_def putTx_def sameKey_def checkBroadcast_def toLowerCase_def
  toLowerChar_def numberField_def Let_def

lemma rows_aa: "getAllBySigner ''0xaa'' threeRows = threeRows"
  by (simp add: getAllBySigner_def threeRows_def row_def)

lemma rows_bb: "getAllBySigner ''0xbb'' threeRows = []"
  by (simp add: getAllBySigner_def threeRows_def row_def)

lemma price_15: "resolveNewGasPrice (tm_config tm1) 10 = (15, False)"
  by code_simp

lemma price_cap: "resolveNewGasPrice (tm_config tm1) 100 = (100, True)"
  by code_simp

lemma under_three:
  "underpricedTransactions (tm_config tm1) threeRows (row ''0x01'' ''0xaa'' 5 10)
     = [row ''0x01'' ''0xaa'' 5 10]"
proof -
  have "gasPrice (row ''0x01'' ''0xaa'' 5 10) = 10" by (simp add: row_def)
  then show ?thesis
    by (simp add: underpricedTransactions_def price_15 threeRows_def) (simp add: row_def)
qed

lemma resend_first:
  "resendTransaction tm1 threeRows (row ''0x01'' ''0xaa'' 5 10) 110 15 False
     = ([(row ''0xh0xaa'' ''0xaa'' 5 15)\<lparr>stored_value := None, attempts := 2,
                                          boostBlockNumber := Some 110\<rparr>,
         row ''0x02'' ''0xaa'' 6 15, row ''0x03'' ''0xaa'' 7 30], Inr sentDetails)"
  by (simp add: run_defs threeRows_def sentDetails_def sample_defs)

lemma sample_guards:
  "getTransactionCount (contractInteractor tm1) a Latest = Some 5"
  "\<not> nonce (row i ''0xaa'' 5 g) < 5"
  "lastSentAtBlockHeight (row i f n g) = 100"
  "pendingTransactionTimeoutBlocks (tm_config tm1) = 10"
  by (simp_all add: lastSentAtBlockHeight_def row_def tm1_def chain1_def cfg1_def)

theorem boost_includes_oldest_witness:
  "boostUnderpricedPendingTransactionsForSigner tm1 threeRows ''0xaa'' 110
     = ([(row ''0xh0xaa'' ''0xaa'' 5 15)\<lparr>stored_value := None, attempts := 2,
                                          boostBlockNumber := Some 110\<rparr>,
         row ''0x02'' ''0xaa'' 6 15, row ''0x03'' ''0xaa'' 7 30],
        Inr (Map.empty(''0x01'' \<mapsto> sentDetails)))
   \<and> txId (row ''0x01'' ''0xaa'' 5 10) \<in> dom (Map.empty(''0x01'' \<mapsto> sentDetails))"
proof -
  have rows: "getAllBySigner ''0xaa'' threeRows
                = row ''0x01'' ''0xaa'' 5 10 # [row ''0x02'' ''0xaa'' 6 15, row ''0x03'' ''0xaa'' 7 30]"
    by (simp add: rows_aa) (simp add: threeRows_def)
  have stale: "110 - lastSentAtBlockHeight (row ''0x01'' ''0xaa'' 5 10)
                 \<ge> pendingTransactionTimeoutBlocks (tm_config tm1)"
    by (simp add: sample_guards)
  have factor: "1 < retryGasPriceFactor (tm_config tm1)" by code_simp
  have pos: "0 < gasPrice (row ''0x01'' ''0xaa'' 5 10)" by (simp add: row_def)
  have below: "gasPrice (row ''0x01'' ''0xaa'' 5 10) < of_int (maxGasPrice (tm_config tm1))"
    by (simp add: row_def tm1_def cfg1_def)
  have gp: "gasPrice (row ''0x01'' ''0xaa'' 5 10) = 10" by (simp add: row_def)
  have under: "underpricedTransactions (tm_config tm1)
                 (row ''0x01'' ''0xaa'' 5 10 # [row ''0x02'' ''0xaa'' 6 15, row ''0x03'' ''0xaa'' 7 30])
                 (row ''0x01'' ''0xaa'' 5 10) = [row ''0x01'' ''0xaa'' 5 10]"
    using under_three by (simp add: threeRows_def)
  have id: "txId (row ''0x01'' ''0xaa'' 5 10) = ''0x01''" by (simp add: row_def)
  note inst = boost_includes_oldest [OF rows sample_guards(1) sample_guards(2) stale factor pos below]
  from inst have run: "boostUnderpricedPendingTransactionsForSigner tm1 threeRows ''0xaa'' 110
      = boostLoop tm1 110 15 False [row ''0x01'' ''0xaa'' 5 10] threeRows Map.empty"
    by (simp add: under gp price_15)
  then have res: "boostUnderpricedPendingTransactionsForSigner tm1 threeRows ''0xaa'' 110
     = ([(row ''0xh0xaa'' ''0xaa'' 5 15)\<lparr>stored_value := None, attempts := 2,
                                          boostBlockNumber := Some 110\<rparr>,
         row ''0x02'' ''0xaa'' 6 15, row ''0x03'' ''0xaa'' 7 30],
        Inr (Map.empty(''0x01'' \<mapsto> sentDetails)))"
    by (simp add: resend_first id)
  with inst have "txId (row ''0x01'' ''0xaa'' 5 10) \<in> dom (Map.empty(''0x01'' \<mapsto> sentDetails))"
    by blast
  with res show ?thesis by blast
qed

lemma rows_capped: "getAllBySigner ''0xaa'' cappedThenCheap = cappedThenCheap"
  by (simp add: getAllBySigner_def cappedThenCheap_def row_def)

lemma resend_cheap:
  "resendTransaction tm1 cappedThenCheap (row ''0x02'' ''0xaa'' 6 50) 110 100 True
     = ([(row ''0xh0xaa'' ''0xaa'' 6 100)\<lparr>stored_value := None, attempts := 2,
                                           boostBlockNumber := Some 110\<rparr>,
         row ''0x01'' ''0xaa'' 5 100], Inr sentDetails)"
  by (simp add: run_defs cappedThenCheap_def sentDetails_def sample_defs)

text \<open>
  The oldest row already has the cap as its price and the next row is cheaper: the
  guards pass, the new price is the cap, and only the second row is resent.
\<close>

theorem boost_oldest_at_cap_counterexample:
  "getAllBySigner ''0xaa'' cappedThenCheap
     = [row ''0x01'' ''0xaa'' 5 100, row ''0x02'' ''0xaa'' 6 50]
   \<and> getTransactionCount (contractInteractor tm1) ''0xaa'' Latest = Some 5
   \<and> \<not> nonce (row ''0x01'' ''0xaa'' 5 100) < 5
   \<and> 110 - lastSentAtBlockHeight (row ''0x01'' ''0xaa'' 5 100)
       \<ge> pendingTransactionTimeoutBlocks (tm_config tm1)
   \<and> underpricedTransactions (tm_config tm1) cappedThenCheap (row ''0x01'' ''0xaa'' 5 100)
       = [row ''0x02'' ''0xaa'' 6 50]
   \<and> snd (boostUnderpricedPendingTransactionsForSigner tm1 cappedThenCheap ''0xaa'' 110)
       = Inr (Map.empty(''0x02'' \<mapsto> sentDetails))
   \<and> (Map.empty(''0x02'' \<mapsto> sentDetails)) (txId (row ''0x01'' ''0xaa'' 5 100)) = None"
proof -
  have rows: "getAllBySigner ''0xaa'' cappedThenCheap
     = [row ''0x01'' ''0xaa'' 5 100, row ''0x02'' ''0xaa'' 6 50]"
    by (simp add: rows_capped) (simp add: cappedThenCheap_def)
  have gp: "gasPrice (row ''0x01'' ''0xaa'' 5 100) = 100" by (simp add: row_def)
  have under: "underpricedTransactions (tm_config tm1) cappedThenCheap (row ''0x01'' ''0xaa'' 5 100)
       = [row ''0x02'' ''0xaa'' 6 50]"
    by (simp add: underpricedTransactions_def gp price_cap cappedThenCheap_def) (simp add: row_def)
  have id2: "txId (row ''0x02'' ''0xaa'' 6 50) = ''0x02''" by (simp add: row_def)
  have run: "boostUnderpricedPendingTransactionsForSigner tm1 cappedThenCheap ''0xaa'' 110
      = boostLoop tm1 110 100 True [row ''0x02'' ''0xaa'' 6 50] cappedThenCheap Map.empty"
  proof -
    have stale: "\<not> 110 - lastSentAtBlockHeight (row ''0x01'' ''0xaa'' 5 100)
                     < pendingTransactionTimeoutBlocks (tm_config tm1)"
      by (simp add: sample_guards)
    have under': "underpricedTransactions (tm_config tm1)
                    (row ''0x01'' ''0xaa'' 5 100 # [row ''0x02'' ''0xaa'' 6 50])
                    (row ''0x01'' ''0xaa'' 5 100) = [row ''0x02'' ''0xaa'' 6 50]"
      using under by (simp add: cappedThenCheap_def)
    from boost_proceeds [OF rows sample_guards(1) sample_guards(2) stale]
    show ?thesis by (simp add: under' gp price_cap)
  qed
  have res: "snd (boostUnderpricedPendingTransactionsForSigner tm1 cappedThenCheap ''0xaa'' 110)
       = Inr (Map.empty(''0x02'' \<mapsto> sentDetails))"
    by (simp add: run resend_cheap id2)
  have none: "(Map.empty(''0x02'' \<mapsto> sentDetails)) (txId (row ''0x01'' ''0xaa'' 5 100)) = None"
    by (simp add: row_def)
  from rows under res none show ?thesis by (simp add: sample_guards)
qed

lemma mined_guards:
  "getTransactionCount (contractInteractor tmMined) a Latest = Some 6"
  "tm_config tmMined = tm_config tm1"
  by (simp_all add: tmMined_def tm1_def)

theorem boost_empty_cases_witness:
  "boostUnderpricedPendingTransactionsForSigner tm1 threeRows ''0xbb'' 110
     = (threeRows, Inr Map.empty)
   \<and> boostUnderpricedPendingTransactionsForSigner tmMined threeRows ''0xaa'' 110
     = (threeRows, Inr Map.empty)
   \<and> boostUnderpricedPendingTransactionsForSigner tm1 threeRows ''0xaa'' 109
     = (threeRows, Inr Map.empty)
   \<and> boostUnderpricedPendingTransactionsForSigner tm1 threeRows ''0xaa'' 110
     = ([(row ''0xh0xaa'' ''0xaa'' 5 15)\<lparr>stored_value := None, attempts := 2,
                                          boostBlockNumber := Some 110\<rparr>,
         row ''0x02'' ''0xaa'' 6 15, row ''0x03'' ''0xaa'' 7 30],
        Inr (Map.empty(''0x01'' \<mapsto> sentDetails)))"
proof -
  have rows: "getAllBySigner ''0xaa'' threeRows
                = row ''0x01'' ''0xaa'' 5 10 # [row ''0x02'' ''0xaa'' 6 15, row ''0x03'' ''0xaa'' 7 30]"
    by (simp add: rows_aa) (simp add: threeRows_def)
  have w1: "boostUnderpricedPendingTransactionsForSigner tm1 threeRows ''0xbb'' 110
     = (threeRows, Inr Map.empty)"
    using boost_empty_cases [of tm1 threeRows "''0xbb''" 110] rows_bb by simp
  have n5: "nonce (row ''0x01'' ''0xaa'' 5 10) < 6" by (simp add: row_def)
  have w2: "boostUnderpricedPendingTransactionsForSigner tmMined threeRows ''0xaa'' 110
     = (threeRows, Inr Map.empty)"
    using boost_empty_cases [of tmMined threeRows "''0xaa''" 110] rows mined_guards(1) n5 by simp
  have young: "109 - lastSentAtBlockHeight (row ''0x01'' ''0xaa'' 5 10)
                 < pendingTransactionTimeoutBlocks (tm_config tm1)"
    by (simp add: sample_guards)
  have w3: "boostUnderpricedPendingTransactionsForSigner tm1 threeRows ''0xaa'' 109
     = (threeRows, Inr Map.empty)"
    using boost_empty_cases [of tm1 threeRows "''0xaa''" 109] rows sample_guards(1) young by simp
  have stale: "110 - lastSentAtBlockHeight (row ''0x01'' ''0xaa'' 5 10)
                 \<ge> pendingTransactionTimeoutBlocks (tm_config tm1)"
    by (simp add: sample_guards)
  have gp: "gasPrice (row ''0x01'' ''0xaa'' 5 10) = 10" by (simp add: row_def)
  have under: "underpricedTransactions (tm_config tm1)
                 (row ''0x01'' ''0xaa'' 5 10 # [row ''0x02'' ''0xaa'' 6 15, row ''0x03'' ''0xaa'' 7 30])
                 (row ''0x01'' ''0xaa'' 5 10) = [row ''0x01'' ''0xaa'' 5 10]"
    using under_three by (simp add: threeRows_def)
  have id: "txId (row ''0x01'' ''0xaa'' 5 10) = ''0x01''" by (simp add: row_def)
  from boost_empty_cases [of tm1 threeRows "''0xaa''" 110] rows sample_guards(1) sample_guards(2) stale
  have "boostUnderpricedPendingTransactionsForSigner tm1 threeRows ''0xaa'' 110
      = boostLoop tm1 110 (fst (resolveNewGasPrice (tm_config tm1) (gasPrice (row ''0x01'' ''0xaa'' 5 10))))
          (snd (resolveNewGasPrice (tm_config tm1) (gasPrice (row ''0x01'' ''0xaa'' 5 10))))
          (underpricedTransactions (tm_config tm1)
             (row ''0x01'' ''0xaa'' 5 10 # [row ''0x02'' ''0xaa'' 6 15, row ''0x03'' ''0xaa'' 7 30])
             (row ''0x01'' ''0xaa'' 5 10)) threeRows Map.empty"
    by blast
  then have w4: "boostUnderpricedPendingTransactionsForSigner tm1 threeRows ''0xaa'' 110
     = ([(row ''0xh0xaa'' ''0xaa'' 5 15)\<lparr>stored_value := None, attempts := 2,
                                          boostBlockNumber := Some 110\<rparr>,
         row ''0x02'' ''0xaa'' 6 15, row ''0x03'' ''0xaa'' 7 30],
        Inr (Map.empty(''0x01'' \<mapsto> sentDetails)))"
    by (simp add: under gp price_15 resend_first id)
  from w1 w2 w3 w4 show ?thesis by blast
qed

text \<open>
  A single row at the cap: all three guards pass, nothing is underpriced, and the
  call returns the empty mapping and the unchanged store.
\<close>

theorem boost_empty_at_cap_counterexample:
  "getAllBySigner ''0xaa'' cappedRow = [row ''0x01'' ''0xaa'' 5 100]
   \<and> getTransactionCount (contractInteractor tm1) ''0xaa'' Latest = Some 5
   \<and> \<not> nonce (row ''0x01'' ''0xaa'' 5 100) < 5
   \<and> \<not> 110 - lastSentAtBlockHeight (row ''0x01'' ''0xaa'' 5 100)
         < pendingTransactionTimeoutBlocks (tm_config tm1)
   \<and> boostUnderpricedPendingTransactionsForSigner tm1 cappedRow ''0xaa'' 110
       = (cappedRow, Inr Map.empty)"
proof -
  have rows: "getAllBySigner ''0xaa'' cappedRow = [row ''0x01'' ''0xaa'' 5 100]"
    by (simp add: getAllBySigner_def cappedRow_def row_def)
  have stale: "\<not> 110 - lastSentAtBlockHeight (row ''0x01'' ''0xaa'' 5 100)
                   < pendingTransactionTimeoutBlocks (tm_config tm1)"
    by (simp add: sample_guards)
  have gp: "gasPrice (row ''0x01'' ''0xaa'' 5 100) = 100" by (simp add: row_def)
  have under: "underpricedTransactions (tm_config tm1) [row ''0x01'' ''0xaa'' 5 100]
                 (row ''0x01'' ''0xaa'' 5 100) = []"
    by (simp add: underpricedTransactions_def gp price_cap)
  from boost_proceeds [OF rows sample_guards(1) sample_guards(2) stale]
  have "boostUnderpricedPendingTransactionsForSigner tm1 cappedRow ''0xaa'' 110
       = (cappedRow, Inr Map.empty)"
    by (simp add: under)
  with rows stale show ?thesis by (simp add: sample_guards)
qed

end
